theory Spec2Isabelle
  imports Complex_Main
begin

section \<open>Strings\<close>

text \<open>
  A Python \<open>str\<close> is modelled as a \<open>string\<close> whose characters are the code points
  U+0000 to U+00FF. The character classes are those of CPython for that range:
  \<open>str.isspace\<close> (used by \<open>strip\<close> and by the regular expression class \<open>\s\<close>),
  \<open>str.isalnum\<close> plus the underscore (the class \<open>\w\<close>), and \<open>str.lower\<close>.
\<close>

definition is_space :: "char \<Rightarrow> bool" where
  "is_space c =
     (let n = (of_char c :: nat)
      in (9 \<le> n \<and> n \<le> 13) \<or> (28 \<le> n \<and> n \<le> 32) \<or> n = 133 \<or> n = 160)"

definition is_alnum :: "char \<Rightarrow> bool" where
  "is_alnum c =
     (let n = (of_char c :: nat)
      in (48 \<le> n \<and> n \<le> 57) \<or> (65 \<le> n \<and> n \<le> 90) \<or> (97 \<le> n \<and> n \<le> 122)
         \<or> n = 170 \<or> n = 178 \<or> n = 179 \<or> n = 181 \<or> n = 185 \<or> n = 186
         \<or> (188 \<le> n \<and> n \<le> 190) \<or> (192 \<le> n \<and> n \<le> 214)
         \<or> (216 \<le> n \<and> n \<le> 246) \<or> (248 \<le> n \<and> n \<le> 255))"

definition is_word :: "char \<Rightarrow> bool" where
  "is_word c = (is_alnum c \<or> c = CHR ''_'')"

definition is_upper :: "char \<Rightarrow> bool" where
  "is_upper c =
     (let n = (of_char c :: nat)
      in (65 \<le> n \<and> n \<le> 90) \<or> (192 \<le> n \<and> n \<le> 214) \<or> (216 \<le> n \<and> n \<le> 222))"

text \<open>
  The lower-case letter of an upper-case one is 32 code points above it; no upper-case
  letter of the range has the bit of weight 32 set, so adding 32 is setting that bit.
\<close>

definition lower_char :: "char \<Rightarrow> char" where
  "lower_char c =
     (if is_upper c
      then (case c of Char b0 b1 b2 b3 b4 b5 b6 b7 \<Rightarrow> Char b0 b1 b2 b3 b4 True b6 b7)
      else c)"

definition lower :: "string \<Rightarrow> string" where
  "lower s = map lower_char s"

definition strip :: "string \<Rightarrow> string" where
  "strip s = rev (dropWhile is_space (rev (dropWhile is_space s)))"

text \<open>\<open>starts_with s p\<close> is \<open>s.startswith(p)\<close>; \<open>contains p s\<close> is Python's \<open>p in s\<close>.\<close>

fun starts_with :: "string \<Rightarrow> string \<Rightarrow> bool" where
  "starts_with s [] = True"
| "starts_with [] (p # ps) = False"
| "starts_with (c # cs) (p # ps) = (c = p \<and> starts_with cs ps)"

fun contains :: "string \<Rightarrow> string \<Rightarrow> bool" where
  "contains p [] = (p = [])"
| "contains p (c # cs) = (starts_with (c # cs) p \<or> contains p cs)"

text \<open>\<open>any_in keys s\<close> is \<open>any(key in s for key in keys)\<close>.\<close>

definition any_in :: "string list \<Rightarrow> string \<Rightarrow> bool" where
  "any_in keys s = list_ex (\<lambda>key. contains key s) keys"

section \<open>File classification (\<open>DataLoader.discover_files\<close>)\<close>

text \<open>
  \<open>csv_files\<close> is the list the glob returns; a path is modelled by its file name.
  \<open>categorized\<close> is the dictionary of the five buckets.
\<close>

type_synonym buckets = "string \<rightharpoonup> string list"

definition empty_buckets :: buckets where
  "empty_buckets =
     [''sales'' \<mapsto> [], ''inventory'' \<mapsto> [], ''advertising'' \<mapsto> [],
      ''reviews'' \<mapsto> [], ''other'' \<mapsto> []]"

definition append_to :: "buckets \<Rightarrow> string \<Rightarrow> string \<Rightarrow> buckets" where
  "append_to categorized k file_path =
     categorized(k \<mapsto> (case categorized k of None \<Rightarrow> [] | Some l \<Rightarrow> l) @ [file_path])"

text \<open>The body of the loop: the \<open>if\<close>/\<open>elif\<close> chain on the lower-cased name.\<close>

definition file_bucket :: "string \<Rightarrow> string" where
  "file_bucket file_path =
     (let filename = lower file_path
      in if any_in [''sales'', ''transaction'', ''order''] filename then ''sales''
         else if any_in [''inventory'', ''stock''] filename then ''inventory''
         else if any_in [''ad'', ''spend'', ''campaign''] filename then ''advertising''
         else if any_in [''review'', ''rating''] filename then ''reviews''
         else ''other'')"

definition categorize :: "buckets \<Rightarrow> string \<Rightarrow> buckets" where
  "categorize categorized file_path = append_to categorized (file_bucket file_path) file_path"

definition discover_files :: "string list \<Rightarrow> buckets" where
  "discover_files csv_files = foldl categorize empty_buckets csv_files"

text \<open>
  The rule in the specification's words: the domains with their pattern sets, in
  priority order; the first domain one of whose patterns occurs in the lower-cased
  name wins, and a name no domain matches goes to \<open>other\<close>.
\<close>

definition domain_patterns :: "(string \<times> string list) list" where
  "domain_patterns =
     [(''sales'', [''sales'', ''transaction'', ''order'']),
      (''inventory'', [''inventory'', ''stock'']),
      (''advertising'', [''ad'', ''spend'', ''campaign'']),
      (''reviews'', [''review'', ''rating''])]"

definition classify_spec :: "string \<Rightarrow> string" where
  "classify_spec file_path =
     (case List.find (\<lambda>(d, pats). list_ex (\<lambda>p. contains p (lower file_path)) pats) domain_patterns of
        Some (d, pats) \<Rightarrow> d
      | None \<Rightarrow> ''other'')"

definition bucket_names :: "string list" where
  "bucket_names = [''sales'', ''inventory'', ''advertising'', ''reviews'', ''other'']"

section \<open>Column-name normalisation (\<open>DataLoader._standardize_column_name\<close>)\<close>

text \<open>
  \<open>re.sub(r'[^\w\s]', '_', name)\<close> replaces each character that is neither a word
  character nor white space; \<open>sub_runs p False s\<close> is \<open>re.sub\<close> of each maximal run of
  characters satisfying \<open>p\<close> by one underscore (the flag tells that the previous
  character belonged to a run).
\<close>

definition sub_special :: "string \<Rightarrow> string" where
  "sub_special s = map (\<lambda>c. if is_word c \<or> is_space c then c else CHR ''_'') s"

fun sub_runs :: "(char \<Rightarrow> bool) \<Rightarrow> bool \<Rightarrow> string \<Rightarrow> string" where
  "sub_runs p inrun [] = []"
| "sub_runs p inrun (c # cs) =
     (if p c then (if inrun then sub_runs p True cs else CHR ''_'' # sub_runs p True cs)
      else c # sub_runs p False cs)"

definition standardize_column_name :: "string \<Rightarrow> string" where
  "standardize_column_name name =
     (let name = strip (lower name);
          name = sub_special name;
          name = sub_runs is_space False name;
          name = sub_runs (\<lambda>c. c = CHR ''_'') False name
      in name)"

text \<open>No two adjacent characters satisfy \<open>p\<close> (the flag as in \<open>sub_runs\<close>).\<close>

fun no_run :: "(char \<Rightarrow> bool) \<Rightarrow> bool \<Rightarrow> string \<Rightarrow> bool" where
  "no_run p inrun [] = True"
| "no_run p inrun (c # cs) = (if p c then \<not> inrun \<and> no_run p True cs else no_run p False cs)"

definition normal_char :: "char \<Rightarrow> bool" where
  "normal_char c = (is_word c \<and> lower_char c = c)"

section \<open>Numbers\<close>

text \<open>
  A Python or NumPy float is an IEEE 754 binary64 value: a finite value, an infinity or
  NaN. An operation on finite values returns the exact result rounded to the nearest
  binary64 value, a tie going to the even mantissa; a result whose rounding reaches
  \<open>2 ^ 1024\<close> is an infinity. A nonzero value divided by zero is an infinity, zero
  divided by zero is NaN, every comparison with NaN is false. The sign of zero is not
  modelled. A column of whole numbers that pandas holds as 64-bit integers is read as
  the floats of the same values.
\<close>

datatype pyfloat = Fin real | PInf | NInf | NaN


text \<open>Rounding to an integer, a tie going to the even neighbour (\<open>rint\<close>).\<close>

definition round_half_even :: "real \<Rightarrow> int" where
  "round_half_even x =
     (let f = \<lfloor>x\<rfloor>; d = x - of_int f
      in if d < 1 / 2 then f else if d > 1 / 2 then f + 1 else if even f then f else f + 1)"

text \<open>
  \<open>exponent x\<close> is the \<open>e\<close> with \<open>2 ^ e \<le> x < 2 ^ (e + 1)\<close>, for a positive \<open>x\<close>. A binary64
  value of that size is a multiple of \<open>2 ^ (e - 52)\<close> (53 bits of mantissa); below
  \<open>2 ^ - 1022\<close> the values are the multiples of \<open>2 ^ - 1074\<close>.
\<close>

fun bit_length :: "nat \<Rightarrow> int" where
  "bit_length n = (if n = 0 then 0 else 1 + bit_length (n div 2))"

declare bit_length.simps [simp del]

definition exponent :: "real \<Rightarrow> int" where
  "exponent x =
     (if x \<ge> 1 then bit_length (nat \<lfloor>x\<rfloor>) - 1 else - bit_length (nat (\<lceil>1 / x\<rceil> - 1)))"

definition pow2 :: "int \<Rightarrow> real" where
  "pow2 e = (if e \<ge> 0 then 2 ^ nat e else 1 / 2 ^ nat (- e))"

definition binary64 :: "real \<Rightarrow> pyfloat" where
  "binary64 x =
     (let e = max (exponent \<bar>x\<bar>) (- 1022);
          ulp = pow2 (e - 52);
          y = of_int (round_half_even (x / ulp)) * ulp
      in if y \<ge> 2 ^ 1024 then PInf else if y \<le> - (2 ^ 1024) then NInf else Fin y)"

fun fneg :: "pyfloat \<Rightarrow> pyfloat" where
  "fneg (Fin x) = Fin (- x)"
| "fneg PInf = NInf"
| "fneg NInf = PInf"
| "fneg NaN = NaN"

fun fabs :: "pyfloat \<Rightarrow> pyfloat" where
  "fabs (Fin x) = Fin \<bar>x\<bar>"
| "fabs PInf = PInf"
| "fabs NInf = PInf"
| "fabs NaN = NaN"

fun fadd :: "pyfloat \<Rightarrow> pyfloat \<Rightarrow> pyfloat" where
  "fadd (Fin x) (Fin y) = binary64 (x + y)"
| "fadd NaN y = NaN"
| "fadd x NaN = NaN"
| "fadd PInf NInf = NaN"
| "fadd NInf PInf = NaN"
| "fadd PInf y = PInf"
| "fadd x PInf = PInf"
| "fadd NInf y = NInf"
| "fadd x NInf = NInf"

definition fsub :: "pyfloat \<Rightarrow> pyfloat \<Rightarrow> pyfloat" where
  "fsub x y = fadd x (fneg y)"

text \<open>The sign of a value: \<open>1\<close>, \<open>-1\<close> or \<open>0\<close> (NaN is handled before it is asked).\<close>

fun fsign :: "pyfloat \<Rightarrow> int" where
  "fsign (Fin x) = (if x > 0 then 1 else if x < 0 then - 1 else 0)"
| "fsign PInf = 1"
| "fsign NInf = - 1"
| "fsign NaN = 0"

definition inf_of_sign :: "int \<Rightarrow> pyfloat" where
  "inf_of_sign s = (if s > 0 then PInf else if s < 0 then NInf else NaN)"

fun fmul :: "pyfloat \<Rightarrow> pyfloat \<Rightarrow> pyfloat" where
  "fmul (Fin x) (Fin y) = binary64 (x * y)"
| "fmul NaN y = NaN"
| "fmul x NaN = NaN"
| "fmul x y = inf_of_sign (fsign x * fsign y)"

fun fdiv :: "pyfloat \<Rightarrow> pyfloat \<Rightarrow> pyfloat" where
  "fdiv (Fin x) (Fin y) = (if y = 0 then inf_of_sign (fsign (Fin x)) else binary64 (x / y))"
| "fdiv NaN y = NaN"
| "fdiv x NaN = NaN"
| "fdiv (Fin x) y = Fin 0"
| "fdiv x (Fin y) = inf_of_sign (fsign x * (if y < 0 then - 1 else 1))"
| "fdiv x y = NaN"

fun flt :: "pyfloat \<Rightarrow> pyfloat \<Rightarrow> bool" where
  "flt (Fin x) (Fin y) = (x < y)"
| "flt NaN y = False"
| "flt x NaN = False"
| "flt x NInf = False"
| "flt PInf y = False"
| "flt x y = True"

definition fgt :: "pyfloat \<Rightarrow> pyfloat \<Rightarrow> bool" where
  "fgt x y = flt y x"

text \<open>
  \<open>round(2)\<close> of NumPy: the value times 100, rounded to an integer, divided by 100,
  each step an operation on floats.
\<close>

fun frint :: "pyfloat \<Rightarrow> pyfloat" where
  "frint (Fin x) = Fin (of_int (round_half_even x))"
| "frint x = x"

definition fround2 :: "pyfloat \<Rightarrow> pyfloat" where
  "fround2 x = fdiv (frint (fmul x (Fin 100))) (Fin 100)"

text \<open>\<open>replace([np.inf, -np.inf], 0)\<close> and \<open>fillna(0)\<close> on one value.\<close>

fun replace_inf :: "pyfloat \<Rightarrow> pyfloat" where
  "replace_inf PInf = Fin 0"
| "replace_inf NInf = Fin 0"
| "replace_inf x = x"

fun fillna0 :: "pyfloat \<Rightarrow> pyfloat" where
  "fillna0 NaN = Fin 0"
| "fillna0 x = x"

section \<open>Tables\<close>

text \<open>
  A time stamp carries the calendar year and month that \<open>strftime('%Y-%m')\<close> prints,
  its position on the time line in nanoseconds (the 64-bit integer pandas stores) and
  its time zone, \<open>None\<close> for a stamp without one. A cell is a number, a text, a time
  stamp or the missing time stamp \<open>NaT\<close>; the missing number is \<open>Num NaN\<close>.
\<close>

datatype stamp = Timestamp (ts_year: nat) (ts_month: nat) (ts_ns: int) (ts_zone: "string option")

datatype cell = Num pyfloat | Text string | Stamp stamp | NaT

type_synonym series = "cell list"

text \<open>
  A \<open>DataFrame\<close>: the number of rows of its index and its columns in order. Column
  labels may repeat (after normalisation \<open>Total Amount\<close> and \<open>total_amount\<close> are the
  same label).
\<close>

record frame =
  nrows :: nat
  cols :: "(string \<times> series) list"

definition column_names :: "frame \<Rightarrow> string list" where
  "column_names df = map fst (cols df)"

text \<open>
  \<open>select df c\<close> lists the columns labelled \<open>c\<close>. \<open>df[c]\<close> is a \<open>Series\<close> when there is
  exactly one, a \<open>DataFrame\<close> when there are several, and raises \<open>KeyError\<close> when there
  is none.
\<close>

definition select :: "frame \<Rightarrow> string \<Rightarrow> series list" where
  "select df c = map snd (filter (\<lambda>col. fst col = c) (cols df))"

text \<open>\<open>df[c] = s\<close>: every column labelled \<open>c\<close> is replaced; a new label is appended.\<close>

definition assign :: "frame \<Rightarrow> string \<Rightarrow> series \<Rightarrow> frame" where
  "assign df c s =
     (if c \<in> set (column_names df)
      then df\<lparr>cols := map (\<lambda>col. if fst col = c then (c, s) else col) (cols df)\<rparr>
      else df\<lparr>cols := cols df @ [(c, s)]\<rparr>)"

text \<open>\<open>df[mask]\<close> keeps the rows whose mask is true; \<open>head(n)\<close> the first \<open>n\<close> rows.\<close>

definition keep :: "bool list \<Rightarrow> 'a list \<Rightarrow> 'a list" where
  "keep msk xs = map snd (filter fst (zip msk xs))"

definition mask_rows :: "bool list \<Rightarrow> frame \<Rightarrow> frame" where
  "mask_rows msk df =
     \<lparr>nrows = length (filter id msk), cols = map (\<lambda>col. (fst col, keep msk (snd col))) (cols df)\<rparr>"

definition head :: "nat \<Rightarrow> frame \<Rightarrow> frame" where
  "head n df = \<lparr>nrows = min n (nrows df), cols = map (\<lambda>col. (fst col, take n (snd col))) (cols df)\<rparr>"

text \<open>The rows at the given positions, in that order (used by sorting).\<close>

definition take_rows :: "nat list \<Rightarrow> frame \<Rightarrow> frame" where
  "take_rows idxs df =
     \<lparr>nrows = length idxs, cols = map (\<lambda>col. (fst col, map (\<lambda>i. snd col ! i) idxs)) (cols df)\<rparr>"

text \<open>
  A column has the type \<open>datetime64\<close>, on which \<open>.dt\<close> works, when every cell is a time
  stamp or \<open>NaT\<close> and the stamps are of one time zone (or of none). A column of stamps
  of different zones is a column of Python objects.
\<close>

definition zones :: "series \<Rightarrow> string option list" where
  "zones s = remdups (concat (map (\<lambda>c. case c of Stamp t \<Rightarrow> [ts_zone t] | _ \<Rightarrow> []) s))"

definition datetimelike :: "series \<Rightarrow> bool" where
  "datetimelike s =
     (list_all (\<lambda>c. case c of Stamp t \<Rightarrow> True | NaT \<Rightarrow> True | _ \<Rightarrow> False) s
      \<and> length (zones s) \<le> 1)"

definition timezone_free :: "series \<Rightarrow> bool" where
  "timezone_free s = list_all (\<lambda>z. z = None) (zones s)"

section \<open>The library and the clock\<close>

datatype error = TypeError | ValueError | KeyError | AttributeError | ZeroDivisionError

text \<open>
  What pandas, NumPy and Python do with the values of a column, and the clock, are not
  part of the repository; the functions take them as a parameter:
  \<^item> \<open>parse_number\<close>: the number \<open>pd.to_numeric\<close> reads in a text, if it reads one;
  \<^item> \<open>to_datetime\<close>: \<open>pd.to_datetime(s, errors='coerce')\<close> of a column: the converted
    column, where what cannot be read is \<open>NaT\<close>, or the exception it raises (the format
    it reads is inferred from the column, and texts of different time zones give a
    column of objects or an exception, which differs between versions of pandas);
  \<^item> \<open>float_sum\<close>: \<open>sum()\<close> of the values of a numeric column that are not NaN, and
    \<open>group_sum\<close>: the same for one group of a grouped \<open>sum\<close>. NumPy adds pairwise, pandas
    adds the values of a group with a compensation term, and both add a column of
    64-bit integers in 64-bit integers; the order and the arithmetic are theirs;
  \<^item> \<open>object_sum\<close>, \<open>object_mean\<close>, \<open>object_group_sums\<close>: what \<open>sum()\<close>, \<open>mean()\<close> and a
    grouped \<open>sum\<close> return for a column that is not numeric (it holds a text or a time
    stamp), \<open>None\<close> when they raise \<open>TypeError\<close>; this differs between versions of pandas;
  \<^item> \<open>recent_cutoff\<close>: \<open>datetime.now() - timedelta(days=30)\<close>, in nanoseconds;
  \<^item> \<open>format_1f\<close>: the format \<open>:.1f\<close>; \<open>str_of\<close>: \<open>str\<close> of a threshold.
\<close>

record library =
  parse_number :: "string \<Rightarrow> pyfloat option"
  to_datetime :: "series \<Rightarrow> error + series"
  float_sum :: "pyfloat list \<Rightarrow> pyfloat"
  group_sum :: "pyfloat list \<Rightarrow> pyfloat"
  object_sum :: "series \<Rightarrow> cell option"
  object_mean :: "series \<Rightarrow> cell option"
  object_group_sums :: "series \<Rightarrow> cell list \<Rightarrow> series \<Rightarrow> series option"
  recent_cutoff :: int
  format_1f :: "pyfloat \<Rightarrow> string"
  str_of :: "real \<Rightarrow> string"

text \<open>
  \<open>sum()\<close> and \<open>mean()\<close> of pandas skip NaN; the mean is the sum divided by the number
  of values, and the mean of no value is NaN.
\<close>

definition nansum :: "library \<Rightarrow> pyfloat list \<Rightarrow> pyfloat" where
  "nansum lib xs = float_sum lib (filter (\<lambda>x. x \<noteq> NaN) xs)"

definition nanmean :: "library \<Rightarrow> pyfloat list \<Rightarrow> pyfloat" where
  "nanmean lib xs =
     (let ys = filter (\<lambda>x. x \<noteq> NaN) xs
      in if ys = [] then NaN else fdiv (float_sum lib ys) (Fin (real (length ys))))"

text \<open>
  \<open>pd.to_numeric(s, errors='coerce')\<close> on one cell: a text that is no number becomes
  NaN; a column of time stamps is read as its 64-bit integers, where \<open>NaT\<close> is the
  smallest one.
\<close>

fun to_numeric_cell :: "library \<Rightarrow> cell \<Rightarrow> pyfloat" where
  "to_numeric_cell lib (Num x) = x"
| "to_numeric_cell lib (Text s) = (case parse_number lib s of Some x \<Rightarrow> x | None \<Rightarrow> NaN)"
| "to_numeric_cell lib (Stamp t) = Fin (of_int (ts_ns t))"
| "to_numeric_cell lib NaT = Fin (- (2 ^ 63))"

definition to_numeric :: "library \<Rightarrow> series \<Rightarrow> pyfloat list" where
  "to_numeric lib s = map (to_numeric_cell lib) s"

section \<open>Cleaning (\<open>DataLoader._clean_sales_data\<close>, \<open>_clean_inventory_data\<close>)\<close>

fun find_date_column :: "string list \<Rightarrow> string option" where
  "find_date_column [] = None"
| "find_date_column (col # columns) =
     (let col_lower = lower col
      in if any_in [''date'', ''time'', ''order_date'', ''transaction_date''] col_lower
         then Some col else find_date_column columns)"

text \<open>
  Both cleaners wrap each conversion in \<open>try\<close>/\<open>except\<close>: \<open>pd.to_numeric\<close> and
  \<open>pd.to_datetime\<close> raise on a \<open>DataFrame\<close> (a repeated label), and \<open>pd.to_datetime\<close>
  where the library raises; the handler drops the exception and the columns stay as
  they were. So a cleaner always returns a table.
\<close>

definition convert_dates :: "library \<Rightarrow> frame \<Rightarrow> string \<Rightarrow> frame" where
  "convert_dates lib df_clean date_col =
     (case select df_clean date_col of
        [s] \<Rightarrow> (case to_datetime lib s of
                  Inr converted \<Rightarrow> assign df_clean date_col converted
                | Inl e \<Rightarrow> df_clean)
      | _ \<Rightarrow> df_clean)"

definition sales_numeric_patterns :: "string list" where
  "sales_numeric_patterns =
     [''quantity'', ''price'', ''total'', ''amount'', ''qty'', ''cost'', ''revenue'']"

definition coerce_sales_column :: "library \<Rightarrow> frame \<Rightarrow> string \<Rightarrow> frame" where
  "coerce_sales_column lib df_clean col =
     (if any_in sales_numeric_patterns (lower col)
      then (case select df_clean col of
              [s] \<Rightarrow> assign df_clean col (map Num (to_numeric lib s))
            | _ \<Rightarrow> df_clean)
      else df_clean)"

definition clean_sales_data :: "library \<Rightarrow> frame \<Rightarrow> frame" where
  "clean_sales_data lib df =
     (let df_clean = df;
          df_clean = (case find_date_column (column_names df_clean) of
                        None \<Rightarrow> df_clean
                      | Some date_col \<Rightarrow> convert_dates lib df_clean date_col)
      in foldl (coerce_sales_column lib) df_clean (column_names df_clean))"

definition inventory_numeric_patterns :: "string list" where
  "inventory_numeric_patterns = [''stock'', ''quantity'', ''qty'', ''days'', ''supply'', ''inbound'']"

definition coerce_inventory_column :: "library \<Rightarrow> frame \<Rightarrow> string \<Rightarrow> frame" where
  "coerce_inventory_column lib df_clean col =
     (if any_in inventory_numeric_patterns (lower col)
      then (case select df_clean col of
              [s] \<Rightarrow> assign df_clean col (map (Num \<circ> fillna0) (to_numeric lib s))
            | _ \<Rightarrow> df_clean)
      else df_clean)"

definition clean_inventory_data :: "library \<Rightarrow> frame \<Rightarrow> frame" where
  "clean_inventory_data lib df =
     (let df_clean = df
      in foldl (coerce_inventory_column lib) df_clean (column_names df_clean))"

section \<open>Configuration, alerts and the analyzer's state\<close>

text \<open>\<open>Config.THRESHOLDS\<close>; \<open>Config\<close> holds the values of \<open>config.py\<close>.\<close>

record config =
  low_stock_days :: real
  overstock_days :: real
  excessive_stock_days :: real
  low_profit_margin :: real
  high_acos :: real
  low_rating :: real

definition Config :: config where
  "Config = \<lparr>low_stock_days = 7, overstock_days = 30, excessive_stock_days = 90,
              low_profit_margin = 15, high_acos = 40, low_rating = 3\<rparr>"

record alert =
  alert_type :: string
  level :: string
  title :: string
  message :: string

text \<open>
  The value of a metric: a count, a scalar, the \<open>Series\<close> that \<open>sum()\<close> of a \<open>DataFrame\<close>
  returns, or a table. A metrics record is a dictionary.
\<close>

datatype mvalue = VInt int | VCell cell | VSeries series | VFrame frame

abbreviation VNum :: "pyfloat \<Rightarrow> mvalue" where
  "VNum x \<equiv> VCell (Num x)"

type_synonym metrics = "string \<rightharpoonup> mvalue"

text \<open>\<open>self.results\<close> and \<open>self.alerts\<close> of \<open>DataAnalyzer\<close>.\<close>

record analyzer =
  results :: "string \<rightharpoonup> metrics"
  alerts :: "alert list"

definition new_analyzer :: analyzer where
  "new_analyzer = \<lparr>results = Map.empty, alerts = []\<rparr>"

text \<open>\<open>str\<close> of a length.\<close>

fun str_nat :: "nat \<Rightarrow> string" where
  "str_nat n =
     (if n < 10 then [''0123456789'' ! n]
      else str_nat (n div 10) @ [''0123456789'' ! (n mod 10)])"

declare str_nat.simps [simp del]

text \<open>\<open>metrics.get(k, 0)\<close> read as a number.\<close>

definition get_num :: "metrics \<Rightarrow> string \<Rightarrow> pyfloat" where
  "get_num m k =
     (case m k of
        Some (VCell (Num x)) \<Rightarrow> x
      | Some (VInt n) \<Rightarrow> Fin (of_int n)
      | _ \<Rightarrow> Fin 0)"

text \<open>The loops that look a column up by one substring of its lower-cased label.\<close>

fun first_containing :: "string \<Rightarrow> string list \<Rightarrow> string option" where
  "first_containing key [] = None"
| "first_containing key (col # columns) =
     (if contains key (lower col) then Some col else first_containing key columns)"

text \<open>The values of a numeric column; \<open>None\<close> for a column that holds a text or a time stamp.\<close>

fun numeric_values :: "series \<Rightarrow> pyfloat list option" where
  "numeric_values [] = Some []"
| "numeric_values (Num x # cs) = map_option ((#) x) (numeric_values cs)"
| "numeric_values (c # cs) = None"

section \<open>Inventory (\<open>DataAnalyzer._analyze_inventory\<close>)\<close>

fun find_stock_col :: "string list \<Rightarrow> string option" where
  "find_stock_col [] = None"
| "find_stock_col (col # columns) =
     (let col_lower = lower col
      in if contains ''stock'' col_lower \<and>
            (contains ''current'' col_lower \<or> contains ''available'' col_lower)
         then Some col else find_stock_col columns)"

definition critical_alert :: "nat \<Rightarrow> alert" where
  "critical_alert n =
     \<lparr>alert_type = ''inventory'', level = ''critical'', title = ''Critical Stock Shortage'',
      message = str_nat n @ '' products have less than 3 days of stock''\<rparr>"

definition low_stock_alert :: "library \<Rightarrow> config \<Rightarrow> nat \<Rightarrow> alert" where
  "low_stock_alert lib cfg n =
     \<lparr>alert_type = ''inventory'', level = ''warning'', title = ''Low Stock Alert'',
      message = str_nat n @ '' products have less than '' @ str_of lib (low_stock_days cfg)
                @ '' days of stock''\<rparr>"

definition overstock_alert :: "library \<Rightarrow> config \<Rightarrow> nat \<Rightarrow> alert" where
  "overstock_alert lib cfg n =
     \<lparr>alert_type = ''inventory'', level = ''info'', title = ''Overstock Detected'',
      message = str_nat n @ '' products have more than '' @ str_of lib (overstock_days cfg)
                @ '' days of stock''\<rparr>"

text \<open>
  The statements under \<open>if days_col and days_col in inventory_df.columns\<close>, from the
  days series on: the metrics and the alerts they add.
\<close>

definition low_stock_analysis ::
  "library \<Rightarrow> config \<Rightarrow> frame \<Rightarrow> pyfloat list \<Rightarrow> metrics \<Rightarrow> metrics \<times> alert list" where
  "low_stock_analysis lib cfg inventory_df days_series inventory_metrics =
     (let low_mask = map (\<lambda>d. flt d (Fin (low_stock_days cfg))) days_series;
          low_stock = mask_rows low_mask inventory_df;
          overstock = mask_rows (map (\<lambda>d. fgt d (Fin (overstock_days cfg))) days_series) inventory_df;
          inventory_metrics = inventory_metrics
            (''low_stock_count'' \<mapsto> VInt (int (nrows low_stock)),
             ''overstock_count'' \<mapsto> VInt (int (nrows overstock)),
             ''low_stock_products'' \<mapsto> VFrame (head 10 low_stock),
             ''overstock_products'' \<mapsto> VFrame (head 10 overstock));
          critical_low = mask_rows (map (\<lambda>d. flt d (Fin 3)) (keep low_mask days_series)) low_stock
      in (inventory_metrics,
          (if nrows low_stock > 0
           then (if nrows critical_low > 0 then [critical_alert (nrows critical_low)] else [])
                @ [low_stock_alert lib cfg (nrows low_stock)]
           else [])
          @ (if nrows overstock > 0 then [overstock_alert lib cfg (nrows overstock)] else [])))"

text \<open>
  The \<open>try\<close> block: \<open>pd.to_numeric\<close> raises on a repeated label; the handler keeps what
  was stored before.
\<close>

definition stock_analysis ::
  "library \<Rightarrow> config \<Rightarrow> frame \<Rightarrow> string \<Rightarrow> string option \<Rightarrow> metrics \<Rightarrow> metrics \<times> alert list" where
  "stock_analysis lib cfg inventory_df stock_col days_col inventory_metrics =
     (case select inventory_df stock_col of
        [s] \<Rightarrow>
          (let total_stock = nansum lib (to_numeric lib s);
               inventory_metrics = inventory_metrics(''total_stock'' \<mapsto> VNum total_stock)
           in case days_col of
                None \<Rightarrow> (inventory_metrics, [])
              | Some dc \<Rightarrow>
                  (case select inventory_df dc of
                     [d] \<Rightarrow> low_stock_analysis lib cfg inventory_df (to_numeric lib d) inventory_metrics
                   | _ \<Rightarrow> (inventory_metrics, [])))
      | _ \<Rightarrow> (inventory_metrics, []))"

definition analyze_inventory :: "library \<Rightarrow> config \<Rightarrow> frame \<Rightarrow> analyzer \<Rightarrow> error + analyzer" where
  "analyze_inventory lib cfg inventory_df self =
     (let inventory_metrics = [''total_products'' \<mapsto> VInt (int (nrows inventory_df))];
          stock_col = find_stock_col (column_names inventory_df);
          days_col = first_containing ''days'' (column_names inventory_df);
          (inventory_metrics, new_alerts) =
            (case stock_col of
               None \<Rightarrow> (inventory_metrics, [])
             | Some sc \<Rightarrow> stock_analysis lib cfg inventory_df sc days_col inventory_metrics)
      in Inr (self\<lparr>results := (results self)(''inventory'' \<mapsto> inventory_metrics),
                   alerts := alerts self @ new_alerts\<rparr>))"

subsection \<open>Stating the properties of the inventory analysis\<close>

text \<open>
  Replacing one cell: row \<open>j\<close> of the column at position \<open>ci\<close>. \<open>critical_in\<close> tells whether
  a list of alerts holds the critical stock alert.
\<close>

definition set_cell :: "frame \<Rightarrow> nat \<Rightarrow> nat \<Rightarrow> cell \<Rightarrow> frame" where
  "set_cell df ci j c =
     df\<lparr>cols := (cols df)[ci := (fst (cols df ! ci), (snd (cols df ! ci))[j := c])]\<rparr>"

definition critical_in :: "alert list \<Rightarrow> bool" where
  "critical_in as = list_ex (\<lambda>a. title a = ''Critical Stock Shortage'') as"

definition alerts_of :: "error + analyzer \<Rightarrow> alert list" where
  "alerts_of r = (case r of Inr a \<Rightarrow> alerts a | Inl e \<Rightarrow> [])"

text \<open>What makes the inventory analysis append the critical alert.\<close>

definition critical_trigger :: "library \<Rightarrow> config \<Rightarrow> frame \<Rightarrow> bool" where
  "critical_trigger lib cfg df =
     (\<exists>sc s dc d. find_stock_col (column_names df) = Some sc \<and> select df sc = [s]
        \<and> first_containing ''days'' (column_names df) = Some dc \<and> select df dc = [d]
        \<and> (\<exists>x \<in> set (to_numeric lib d). flt x (Fin (low_stock_days cfg)) \<and> flt x (Fin 3)))"

section \<open>Reviews (\<open>DataAnalyzer._analyze_reviews\<close>)\<close>

definition low_ratings_alert :: "library \<Rightarrow> config \<Rightarrow> nat \<Rightarrow> alert" where
  "low_ratings_alert lib cfg n =
     \<lparr>alert_type = ''reviews'', level = ''warning'', title = ''Low Ratings Alert'',
      message = str_nat n @ '' reviews have rating < '' @ str_of lib (low_rating cfg)\<rparr>"

definition analyze_reviews :: "library \<Rightarrow> config \<Rightarrow> frame \<Rightarrow> analyzer \<Rightarrow> error + analyzer" where
  "analyze_reviews lib cfg reviews_df self =
     (let reviews_metrics = [''total_reviews'' \<mapsto> VInt (int (nrows reviews_df))];
          (reviews_metrics, new_alerts) =
            (if ''rating'' \<in> set (column_names reviews_df)
             then (case select reviews_df ''rating'' of
                     [s] \<Rightarrow>
                       (let ratings = to_numeric lib s;
                            reviews_metrics = reviews_metrics(''avg_rating'' \<mapsto> VNum (nanmean lib ratings));
                            low_rated = mask_rows (map (\<lambda>r. flt r (Fin (low_rating cfg))) ratings) reviews_df
                        in if nrows low_rated > 0
                           then (reviews_metrics(''low_rated_count'' \<mapsto> VInt (int (nrows low_rated))),
                                 [low_ratings_alert lib cfg (nrows low_rated)])
                           else (reviews_metrics, []))
                   | _ \<Rightarrow> (reviews_metrics, []))
             else (reviews_metrics, []))
      in Inr (self\<lparr>results := (results self)(''reviews'' \<mapsto> reviews_metrics),
                   alerts := alerts self @ new_alerts\<rparr>))"

section \<open>Grouping and sorting\<close>

text \<open>
  \<open>groupby\<close> drops the rows whose key is missing and lists the groups by ascending
  key; \<open>sort_values(ascending=False)\<close> puts the missing keys last. Keys are compared as
  Python compares them (numbers by value, texts by code points); where pandas has to
  order keys of different kinds it puts numbers first.
\<close>

fun is_null :: "cell \<Rightarrow> bool" where
  "is_null (Num NaN) = True"
| "is_null NaT = True"
| "is_null c = False"

fun str_lt :: "string \<Rightarrow> string \<Rightarrow> bool" where
  "str_lt [] [] = False"
| "str_lt [] (d # ds) = True"
| "str_lt (c # cs) [] = False"
| "str_lt (c # cs) (d # ds) = ((of_char c :: nat) < of_char d \<or> (c = d \<and> str_lt cs ds))"

fun cell_lt :: "cell \<Rightarrow> cell \<Rightarrow> bool" where
  "cell_lt (Num x) (Num y) = flt x y"
| "cell_lt (Num x) (Stamp t) = True"
| "cell_lt (Num x) (Text b) = True"
| "cell_lt (Stamp s) (Stamp t) = (ts_ns s < ts_ns t)"
| "cell_lt (Stamp s) (Text b) = True"
| "cell_lt (Text a) (Text b) = str_lt a b"
| "cell_lt a b = False"

fun insert_key :: "cell \<Rightarrow> cell list \<Rightarrow> cell list" where
  "insert_key k [] = [k]"
| "insert_key k (g # gs) = (if cell_lt g k then g # insert_key k gs else k # g # gs)"

definition group_keys :: "series \<Rightarrow> cell list" where
  "group_keys ks = foldr insert_key (remdups (filter (\<lambda>k. \<not> is_null k) ks)) []"

text \<open>The sum of each group: of the values of its rows that are not NaN.\<close>

definition group_sums :: "library \<Rightarrow> series \<Rightarrow> cell list \<Rightarrow> pyfloat list \<Rightarrow> pyfloat list" where
  "group_sums lib ks keys xs =
     map (\<lambda>g. group_sum lib (filter (\<lambda>x. x \<noteq> NaN) (keep (map (\<lambda>k. k = g) ks) xs))) keys"

text \<open>
  The grouped sum of one column: of a numeric column it is computed here; of any other
  column it is the library's, one value for each group.
\<close>

definition grouped_sum :: "library \<Rightarrow> series \<Rightarrow> cell list \<Rightarrow> series \<Rightarrow> series option" where
  "grouped_sum lib ks keys s =
     (case numeric_values s of
        Some xs \<Rightarrow> Some (map Num (group_sums lib ks keys xs))
      | None \<Rightarrow>
          (case object_group_sums lib ks keys s of
             Some r \<Rightarrow> if length r = length keys then Some r else None
           | None \<Rightarrow> None))"

text \<open>\<open>Series.sum()\<close> and \<open>Series.mean()\<close>; \<open>None\<close> when they raise.\<close>

definition series_sum :: "library \<Rightarrow> series \<Rightarrow> cell option" where
  "series_sum lib s =
     (case numeric_values s of Some xs \<Rightarrow> Some (Num (nansum lib xs)) | None \<Rightarrow> object_sum lib s)"

definition series_mean :: "library \<Rightarrow> series \<Rightarrow> cell option" where
  "series_mean lib s =
     (case numeric_values s of Some xs \<Rightarrow> Some (Num (nanmean lib xs)) | None \<Rightarrow> object_mean lib s)"

text \<open>
  \<open>df[c].sum()\<close> where \<open>df[c]\<close> is the given selection: the sum of a \<open>Series\<close>, or the
  \<open>Series\<close> of the sums of the columns of a \<open>DataFrame\<close>.
\<close>

definition df_agg :: "(series \<Rightarrow> cell option) \<Rightarrow> series list \<Rightarrow> error + mvalue" where
  "df_agg agg sel =
     (case sel of
        [] \<Rightarrow> Inl KeyError
      | [s] \<Rightarrow> (case agg s of Some c \<Rightarrow> Inr (VCell c) | None \<Rightarrow> Inl TypeError)
      | _ \<Rightarrow> (case those (map agg sel) of Some cs \<Rightarrow> Inr (VSeries cs) | None \<Rightarrow> Inl TypeError))"

text \<open>
  Sorting the rows by one column, descending. Keys of different kinds are not ordered.
  Rows of equal keys stay here in the order of the table; NumPy's default sort does not
  promise that, and the order it gives to rows of equal keys is its own.
\<close>

fun kind :: "cell \<Rightarrow> nat" where
  "kind (Num x) = 0"
| "kind (Text a) = 1"
| "kind c = 2"

definition sortable :: "series \<Rightarrow> bool" where
  "sortable s =
     (case map kind (filter (\<lambda>c. \<not> is_null c) s) of
        [] \<Rightarrow> True
      | k # ks \<Rightarrow> list_all (\<lambda>k'. k' = k) ks)"

definition before_desc :: "cell \<Rightarrow> cell \<Rightarrow> bool" where
  "before_desc a b = (\<not> is_null a \<and> (is_null b \<or> cell_lt b a))"

fun insert_idx :: "series \<Rightarrow> nat \<Rightarrow> nat list \<Rightarrow> nat list" where
  "insert_idx s i [] = [i]"
| "insert_idx s i (j # js) =
     (if before_desc (s ! j) (s ! i) then j # insert_idx s i js else i # j # js)"

definition argsort_desc :: "series \<Rightarrow> nat list" where
  "argsort_desc s = foldr (insert_idx s) [0..<length s] []"

definition sort_values_desc :: "string \<Rightarrow> frame \<Rightarrow> frame option" where
  "sort_values_desc c df =
     (case select df c of
        [s] \<Rightarrow> if sortable s then Some (take_rows (argsort_desc s) df) else None
      | _ \<Rightarrow> None)"

text \<open>\<open>round(2)\<close> of a column leaves what is no number as it is.\<close>

fun round_cell :: "cell \<Rightarrow> cell" where
  "round_cell (Num x) = Num (fround2 x)"
| "round_cell c = c"

section \<open>Advertising (\<open>DataAnalyzer._analyze_advertising\<close>)\<close>

text \<open>
  The three totals are computed outside any \<open>try\<close>: \<open>pd.to_numeric\<close> of a repeated
  label raises \<open>TypeError\<close>, and the exception leaves the method.
\<close>

definition put_total ::
  "library \<Rightarrow> frame \<Rightarrow> string option \<Rightarrow> string \<Rightarrow> metrics \<Rightarrow> error + metrics" where
  "put_total lib advertising_df col k advertising_metrics =
     (case col of
        None \<Rightarrow> Inr advertising_metrics
      | Some c \<Rightarrow>
          (case select advertising_df c of
             [] \<Rightarrow> Inl KeyError
           | [s] \<Rightarrow> Inr (advertising_metrics(k \<mapsto> VNum (nansum lib (to_numeric lib s))))
           | _ \<Rightarrow> Inl TypeError))"

definition derived_rates :: "metrics \<Rightarrow> metrics" where
  "derived_rates advertising_metrics =
     (if fgt (get_num advertising_metrics ''total_spend'') (Fin 0) \<and>
         fgt (get_num advertising_metrics ''total_clicks'') (Fin 0)
      then (let advertising_metrics = advertising_metrics
                  (''avg_cpc'' \<mapsto> VNum (fdiv (get_num advertising_metrics ''total_spend'')
                                             (get_num advertising_metrics ''total_clicks'')))
            in if fgt (get_num advertising_metrics ''total_impressions'') (Fin 0)
               then advertising_metrics
                  (''ctr'' \<mapsto> VNum (fmul (fdiv (get_num advertising_metrics ''total_clicks'')
                                             (get_num advertising_metrics ''total_impressions''))
                                       (Fin 100)))
               else advertising_metrics)
      else advertising_metrics)"

definition high_acos_alert :: "library \<Rightarrow> config \<Rightarrow> nat \<Rightarrow> alert" where
  "high_acos_alert lib cfg n =
     \<lparr>alert_type = ''advertising'', level = ''warning'', title = ''High ACOS Campaigns'',
      message = str_nat n @ '' campaigns have ACOS > '' @ str_of lib (high_acos cfg) @ ''%''\<rparr>"

text \<open>\<open>(sales / spend).replace([np.inf, -np.inf], 0).fillna(0).round(2)\<close> on one row.\<close>

definition roas_value :: "pyfloat \<Rightarrow> pyfloat \<Rightarrow> pyfloat" where
  "roas_value sales spend = fround2 (fillna0 (replace_inf (fdiv sales spend)))"

text \<open>
  The statements under \<open>if 'sales' in advertising_df.columns\<close>. \<open>None\<close> when one of
  them raises: the label \<open>sales\<close> is repeated, the grouped sum raises, a sum is no
  number (the division raises \<open>TypeError\<close>), or the threshold is zero
  (\<open>ZeroDivisionError\<close>). Nothing has been stored or appended before any of these.
\<close>

definition with_roas ::
  "library \<Rightarrow> config \<Rightarrow> frame \<Rightarrow> series \<Rightarrow> cell list \<Rightarrow> frame \<Rightarrow> metrics
     \<Rightarrow> (frame \<times> metrics \<times> alert list) option" where
  "with_roas lib cfg advertising_df names keys campaign_performance advertising_metrics =
     (case select advertising_df ''sales'' of
        [sl] \<Rightarrow>
          (case grouped_sum lib names keys sl of
             None \<Rightarrow> None
           | Some sales \<Rightarrow>
               (let campaign_performance = assign campaign_performance ''sales'' sales
                in case (numeric_values sales,
                         case select campaign_performance ''spend'' of
                           [sp] \<Rightarrow> numeric_values sp | _ \<Rightarrow> None) of
                     (Some sales_values, Some spend_values) \<Rightarrow>
                       (let roas = map (\<lambda>(a, b). roas_value a b) (zip sales_values spend_values);
                            campaign_performance = assign campaign_performance ''roas'' (map Num roas)
                        in if high_acos cfg = 0 then None
                           else (let high_acos_campaigns =
                                       mask_rows
                                         (map (\<lambda>r. flt r (fdiv (Fin 100) (Fin (high_acos cfg)))) roas)
                                         campaign_performance
                                 in if nrows high_acos_campaigns > 0
                                    then Some (campaign_performance,
                                               advertising_metrics
                                                 (''high_acos_campaigns'' \<mapsto> VFrame (head 5 high_acos_campaigns)),
                                               [high_acos_alert lib cfg (nrows high_acos_campaigns)])
                                    else Some (campaign_performance, advertising_metrics, [])))
                   | _ \<Rightarrow> None))
      | _ \<Rightarrow> None)"

text \<open>
  The \<open>try\<close> block under \<open>if 'campaign_name' in advertising_df.columns\<close>. The
  aggregation raises when the spend or the clicks column was not found (the key \<open>None\<close>),
  when both are the same column or a label is repeated (the three new labels do not
  fit), or when a grouped sum raises. The handler keeps the metrics and the alert
  stored before a failing sort.
\<close>

definition campaign_analysis ::
  "library \<Rightarrow> config \<Rightarrow> frame \<Rightarrow> string option \<Rightarrow> string option \<Rightarrow> metrics
     \<Rightarrow> metrics \<times> alert list" where
  "campaign_analysis lib cfg advertising_df spend_col clicks_col advertising_metrics =
     (case (spend_col, clicks_col) of
        (Some sc, Some cc) \<Rightarrow>
          (if sc = cc then (advertising_metrics, [])
           else case (select advertising_df ''campaign_name'', select advertising_df sc,
                      select advertising_df cc) of
                  ([names], [s], [c]) \<Rightarrow>
                    (let keys = group_keys names
                     in case (grouped_sum lib names keys s, grouped_sum lib names keys c) of
                          (Some spend, Some clicks) \<Rightarrow>
                            (let campaign_performance =
                                   \<lparr>nrows = length keys,
                                    cols = [(''campaign_name'', keys), (''spend'', spend),
                                            (''clicks'', clicks)]\<rparr>
                             in case (if ''sales'' \<in> set (column_names advertising_df)
                                      then with_roas lib cfg advertising_df names keys
                                             campaign_performance advertising_metrics
                                      else Some (campaign_performance, advertising_metrics, [])) of
                                  None \<Rightarrow> (advertising_metrics, [])
                                | Some (campaign_performance, metrics', new_alerts) \<Rightarrow>
                                    (case sort_values_desc ''spend'' campaign_performance of
                                       None \<Rightarrow> (metrics', new_alerts)
                                     | Some sorted_performance \<Rightarrow>
                                         (metrics'(''campaign_performance'' \<mapsto>
                                                     VFrame (head 10 sorted_performance)),
                                          new_alerts)))
                        | _ \<Rightarrow> (advertising_metrics, []))
                | _ \<Rightarrow> (advertising_metrics, []))
      | _ \<Rightarrow> (advertising_metrics, []))"

definition analyze_advertising :: "library \<Rightarrow> config \<Rightarrow> frame \<Rightarrow> analyzer \<Rightarrow> error + analyzer" where
  "analyze_advertising lib cfg advertising_df self =
     (let spend_col = first_containing ''spend'' (column_names advertising_df);
          clicks_col = first_containing ''clicks'' (column_names advertising_df);
          impressions_col = first_containing ''impressions'' (column_names advertising_df)
      in case put_total lib advertising_df spend_col ''total_spend'' Map.empty of
           Inl e \<Rightarrow> Inl e
         | Inr advertising_metrics \<Rightarrow>
        (case put_total lib advertising_df clicks_col ''total_clicks'' advertising_metrics of
           Inl e \<Rightarrow> Inl e
         | Inr advertising_metrics \<Rightarrow>
        (case put_total lib advertising_df impressions_col ''total_impressions'' advertising_metrics of
           Inl e \<Rightarrow> Inl e
         | Inr advertising_metrics \<Rightarrow>
             (let advertising_metrics = derived_rates advertising_metrics;
                  (advertising_metrics, new_alerts) =
                    (if ''campaign_name'' \<in> set (column_names advertising_df)
                     then campaign_analysis lib cfg advertising_df spend_col clicks_col
                            advertising_metrics
                     else (advertising_metrics, []))
              in Inr (self\<lparr>results := (results self)(''advertising'' \<mapsto> advertising_metrics),
                           alerts := alerts self @ new_alerts\<rparr>)))))"

section \<open>Sales (\<open>DataAnalyzer._analyze_sales\<close>)\<close>

fun find_revenue_col :: "string list \<Rightarrow> string option" where
  "find_revenue_col [] = None"
| "find_revenue_col (col # columns) =
     (let col_lower = lower col
      in if any_in [''total'', ''revenue'', ''amount'', ''price''] col_lower
         then (if \<not> contains ''unit'' col_lower then Some col else find_revenue_col columns)
         else find_revenue_col columns)"

fun find_quantity_col :: "string list \<Rightarrow> string option" where
  "find_quantity_col [] = None"
| "find_quantity_col (col # columns) =
     (let col_lower = lower col
      in if any_in [''quantity'', ''qty''] col_lower then Some col else find_quantity_col columns)"

fun find_product_col :: "string list \<Rightarrow> string option" where
  "find_product_col [] = None"
| "find_product_col (col # columns) =
     (if contains ''product'' (lower col) \<and> contains ''name'' (lower col) then Some col
      else find_product_col columns)"

text \<open>
  The rule of the revenue column in the specification's words: a name qualifies when
  its lower-cased form contains one of the four substrings and does not contain \<open>unit\<close>.
\<close>

definition revenue_name :: "string \<Rightarrow> bool" where
  "revenue_name col =
     (list_ex (\<lambda>key. contains key (lower col)) [''total'', ''revenue'', ''amount'', ''price'']
      \<and> \<not> contains ''unit'' (lower col))"

text \<open>\<open>strftime('%Y-%m')\<close>; of \<open>NaT\<close> it is NaN.\<close>

definition two_digits :: "nat \<Rightarrow> string" where
  "two_digits n = [''0123456789'' ! ((n div 10) mod 10), ''0123456789'' ! (n mod 10)]"

fun month_str :: "cell \<Rightarrow> cell" where
  "month_str (Stamp t) =
     Text (two_digits (ts_year t div 100) @ two_digits (ts_year t) @ ''-'' @ two_digits (ts_month t))"
| "month_str c = Num NaN"

text \<open>
  \<open>sales_df['_date'] >= recent_cutoff\<close>: the cutoff has no time zone, and comparing it
  with a column of stamps that have one raises \<open>TypeError\<close> (\<open>None\<close>).
\<close>

fun is_recent :: "library \<Rightarrow> cell \<Rightarrow> bool" where
  "is_recent lib (Stamp t) = (recent_cutoff lib \<le> ts_ns t)"
| "is_recent lib c = False"

definition recent_mask :: "library \<Rightarrow> series \<Rightarrow> bool list option" where
  "recent_mask lib dates =
     (if timezone_free dates then Some (map (is_recent lib) dates) else None)"

text \<open>
  The growth rate, from the monthly totals in the order of the months. Comparing or
  subtracting a sum that is no number raises \<open>TypeError\<close>, inside the \<open>try\<close>.
\<close>

definition growth_rate :: "series \<Rightarrow> pyfloat option" where
  "growth_rate totals =
     (if length totals > 1
      then (case (totals ! (length totals - 1), totals ! (length totals - 2)) of
              (Num last_month, Num prev_month) \<Rightarrow>
                if fgt prev_month (Fin 0)
                then Some (fmul (fdiv (fsub last_month prev_month) prev_month) (Fin 100))
                else None
            | _ \<Rightarrow> None)
      else None)"

text \<open>
  The statements under \<open>if revenue_col and revenue_col in sales_df.columns\<close> inside the
  \<open>try\<close>; when one raises, the metrics stored so far stay.
\<close>

definition monthly_metrics :: "library \<Rightarrow> frame \<Rightarrow> series \<Rightarrow> string \<Rightarrow> metrics \<Rightarrow> metrics" where
  "monthly_metrics lib sales_df dates revenue_col sales_metrics =
     (case (select sales_df ''_month_str'', select sales_df revenue_col) of
        ([months], [revenue]) \<Rightarrow>
          (let keys = group_keys months
           in case grouped_sum lib months keys revenue of
                None \<Rightarrow> sales_metrics
              | Some totals \<Rightarrow>
                  (let monthly_sales =
                         \<lparr>nrows = length keys, cols = [(''month'', keys), (''revenue'', totals)]\<rparr>;
                       sales_metrics = sales_metrics(''monthly_trends'' \<mapsto> VFrame monthly_sales)
                   in case recent_mask lib dates of
                        None \<Rightarrow> sales_metrics
                      | Some recent \<Rightarrow>
                          (let recent_sales = mask_rows recent sales_df;
                               sales_metrics = sales_metrics
                                 (''recent_transactions'' \<mapsto> VInt (int (nrows recent_sales)))
                           in case series_sum lib (keep recent revenue) of
                                None \<Rightarrow> sales_metrics
                              | Some recent_revenue \<Rightarrow>
                                  (let sales_metrics =
                                         sales_metrics(''recent_revenue'' \<mapsto> VCell recent_revenue)
                                   in case growth_rate totals of
                                        None \<Rightarrow> sales_metrics
                                      | Some growth \<Rightarrow>
                                          sales_metrics(''monthly_growth'' \<mapsto> VNum growth)))))
      | _ \<Rightarrow> sales_metrics)"

text \<open>
  The \<open>try\<close> block of the date column. It writes the helper columns into the caller's
  table, one after the other. \<open>pd.to_datetime\<close> raises on a repeated label and where
  the library raises; \<open>.dt\<close> raises \<open>AttributeError\<close> when the label \<open>_date\<close> is repeated
  or the converted column is not of the type \<open>datetime64\<close>, and then \<open>_date\<close> has been
  written and \<open>_month_str\<close> has not.
\<close>

definition date_metrics ::
  "library \<Rightarrow> frame \<Rightarrow> string \<Rightarrow> string option \<Rightarrow> metrics \<Rightarrow> frame \<times> metrics" where
  "date_metrics lib sales_df date_col revenue_col sales_metrics =
     (case select sales_df date_col of
        [d] \<Rightarrow>
          (case to_datetime lib d of
             Inl e \<Rightarrow> (sales_df, sales_metrics)
           | Inr converted \<Rightarrow>
               (let sales_df = assign sales_df ''_date'' converted
                in case select sales_df ''_date'' of
                     [dates] \<Rightarrow>
                       (if datetimelike dates
                        then (let sales_df = assign sales_df ''_month_str'' (map month_str dates)
                              in case revenue_col of
                                   None \<Rightarrow> (sales_df, sales_metrics)
                                 | Some rc \<Rightarrow>
                                     (sales_df, monthly_metrics lib sales_df dates rc sales_metrics))
                        else (sales_df, sales_metrics))
                   | _ \<Rightarrow> (sales_df, sales_metrics)))
      | _ \<Rightarrow> (sales_df, sales_metrics))"

text \<open>
  The \<open>try\<close> block of the product performance; \<open>None\<close> when a statement raises (a
  repeated label, a grouped sum or the sort raising). The product column may itself be
  the revenue or the quantity column: pandas groups by it and sums it.
\<close>

definition product_performance ::
  "library \<Rightarrow> frame \<Rightarrow> string \<Rightarrow> string \<Rightarrow> string option \<Rightarrow> frame option" where
  "product_performance lib sales_df product_col revenue_col quantity_col =
     (case (select sales_df product_col, select sales_df revenue_col) of
        ([products], [revenue]) \<Rightarrow>
          (let keys = group_keys products
           in case grouped_sum lib products keys revenue of
                None \<Rightarrow> None
              | Some totals \<Rightarrow>
                  (let performance =
                         \<lparr>nrows = length keys,
                          cols = [(product_col, keys), (''total_revenue'', map round_cell totals)]\<rparr>;
                       performance =
                         (case quantity_col of
                            None \<Rightarrow> Some performance
                          | Some qc \<Rightarrow>
                              (case select sales_df qc of
                                 [quantity] \<Rightarrow>
                                   map_option
                                     (\<lambda>q. assign performance ''total_quantity'' (map round_cell q))
                                     (grouped_sum lib products keys quantity)
                               | _ \<Rightarrow> None))
                   in case performance of
                        None \<Rightarrow> None
                      | Some performance \<Rightarrow>
                          map_option (head 10) (sort_values_desc ''total_revenue'' performance)))
      | _ \<Rightarrow> None)"

definition sales_decline_alert :: "library \<Rightarrow> pyfloat \<Rightarrow> alert" where
  "sales_decline_alert lib growth =
     \<lparr>alert_type = ''sales'', level = ''warning'', title = ''Sales Decline'',
      message = ''Monthly sales declined by '' @ format_1f lib (fabs growth) @ ''%''\<rparr>"

text \<open>
  The three aggregates of the dictionary literal are computed outside any \<open>try\<close>, in
  this order, before the table is touched. The result holds the table as the method
  leaves it.
\<close>

definition basic_metrics :: "library \<Rightarrow> frame \<Rightarrow> string option \<Rightarrow> string option \<Rightarrow> error + metrics" where
  "basic_metrics lib sales_df quantity_col revenue_col =
     (case (case quantity_col of
              None \<Rightarrow> Inr (VInt 0)
            | Some q \<Rightarrow> df_agg (series_sum lib) (select sales_df q)) of
        Inl e \<Rightarrow> Inl e
      | Inr total_quantity \<Rightarrow>
     (case (case revenue_col of
              None \<Rightarrow> Inr (VInt 0)
            | Some r \<Rightarrow> df_agg (series_sum lib) (select sales_df r)) of
        Inl e \<Rightarrow> Inl e
      | Inr total_revenue \<Rightarrow>
     (case (case revenue_col of
              None \<Rightarrow> Inr (VInt 0)
            | Some r \<Rightarrow> df_agg (series_mean lib) (select sales_df r)) of
        Inl e \<Rightarrow> Inl e
      | Inr avg_order_value \<Rightarrow>
          Inr [''total_transactions'' \<mapsto> VInt (int (nrows sales_df)),
               ''total_quantity'' \<mapsto> total_quantity,
               ''total_revenue'' \<mapsto> total_revenue,
               ''avg_order_value'' \<mapsto> avg_order_value])))"

definition analyze_sales :: "library \<Rightarrow> frame \<Rightarrow> analyzer \<Rightarrow> error + frame \<times> analyzer" where
  "analyze_sales lib sales_df self =
     (let revenue_col = find_revenue_col (column_names sales_df);
          quantity_col = find_quantity_col (column_names sales_df)
      in case basic_metrics lib sales_df quantity_col revenue_col of
           Inl e \<Rightarrow> Inl e
         | Inr sales_metrics \<Rightarrow>
             (let (sales_df, sales_metrics) =
                    (case first_containing ''date'' (column_names sales_df) of
                       None \<Rightarrow> (sales_df, sales_metrics)
                     | Some date_col \<Rightarrow> date_metrics lib sales_df date_col revenue_col sales_metrics);
                  sales_metrics =
                    (case (find_product_col (column_names sales_df), revenue_col) of
                       (Some product_col, Some rc) \<Rightarrow>
                         (case product_performance lib sales_df product_col rc quantity_col of
                            None \<Rightarrow> sales_metrics
                          | Some top_products \<Rightarrow> sales_metrics(''top_products'' \<mapsto> VFrame top_products))
                     | _ \<Rightarrow> sales_metrics)
              in Inr (sales_df,
                      self\<lparr>results := (results self)(''sales'' \<mapsto> sales_metrics),
                           alerts := alerts self @
                             (if flt (get_num sales_metrics ''monthly_growth'') (Fin (- 10))
                              then [sales_decline_alert lib (get_num sales_metrics ''monthly_growth'')]
                              else [])\<rparr>)))"

section \<open>The run (\<open>DataAnalyzer.analyze_all\<close>)\<close>

text \<open>
  \<open>data_dict\<close>: the table of each domain, \<open>None\<close> when none was loaded. The four analyses
  run inside one \<open>try\<close> whose handler logs the exception and raises it again; the
  result holds the tables, the sales table as the sales analysis left it.
\<close>

record data_dict =
  sales :: "frame option"
  inventory :: "frame option"
  advertising :: "frame option"
  reviews :: "frame option"

text \<open>One statement after another inside the \<open>try\<close>: an exception skips the rest.\<close>

definition then_do :: "error + 'a \<Rightarrow> ('a \<Rightarrow> error + 'b) \<Rightarrow> error + 'b" where
  "then_do r f = (case r of Inl e \<Rightarrow> Inl e | Inr x \<Rightarrow> f x)"

text \<open>\<open>if 'sales' in data_dict and data_dict['sales'] is not None: ...\<close>, and the same for
  the three domains whose analysis leaves the table alone.\<close>

definition sales_step :: "library \<Rightarrow> data_dict \<Rightarrow> analyzer \<Rightarrow> error + data_dict \<times> analyzer" where
  "sales_step lib data self =
     (case sales data of
        None \<Rightarrow> Inr (data, self)
      | Some sales_df \<Rightarrow>
          then_do (analyze_sales lib sales_df self)
            (\<lambda>(sales_df, self). Inr (data\<lparr>sales := Some sales_df\<rparr>, self)))"

definition domain_step ::
  "(frame \<Rightarrow> analyzer \<Rightarrow> error + analyzer) \<Rightarrow> frame option \<Rightarrow> analyzer \<Rightarrow> error + analyzer" where
  "domain_step analyze table self =
     (case table of None \<Rightarrow> Inr self | Some df \<Rightarrow> analyze df self)"

definition analyze_all ::
  "library \<Rightarrow> config \<Rightarrow> data_dict \<Rightarrow> analyzer \<Rightarrow> error + data_dict \<times> analyzer" where
  "analyze_all lib cfg data self =
     then_do (sales_step lib data self) (\<lambda>(data, self).
     then_do (domain_step (analyze_inventory lib cfg) (inventory data) self) (\<lambda>self.
     then_do (domain_step (analyze_advertising lib cfg) (advertising data) self) (\<lambda>self.
     then_do (domain_step (analyze_reviews lib cfg) (reviews data) self) (\<lambda>self.
     Inr (data, self)))))"


text \<open>Reading one metric of the sales record off the result of the analysis.\<close>

definition sales_metric :: "error + frame \<times> analyzer \<Rightarrow> string \<Rightarrow> mvalue option" where
  "sales_metric r k =
     (case r of
        Inl e \<Rightarrow> None
      | Inr (df, self) \<Rightarrow> (case results self ''sales'' of None \<Rightarrow> None | Some m \<Rightarrow> m k))"

section \<open>The worked examples\<close>

text \<open>
  A library for the worked examples. It reads the few texts they use (a text that is
  no date becomes \<open>NaT\<close>, a stamp stays) and adds the values one after the other,
  which for the few whole numbers of the examples is what NumPy and pandas compute.
\<close>

fun demo_date :: "cell \<Rightarrow> cell" where
  "demo_date (Text s) =
     (case map_of
        [(''2023-01-05'', Timestamp 2023 1 1672876800000000000 None),
         (''2023-01-20'', Timestamp 2023 1 1674172800000000000 None),
         (''2023-02-01'', Timestamp 2023 2 1675209600000000000 None),
         (''2023-02-15'', Timestamp 2023 2 1676419200000000000 None)] s of
        Some t \<Rightarrow> Stamp t
      | None \<Rightarrow> NaT)"
| "demo_date (Stamp t) = Stamp t"
| "demo_date c = NaT"

definition demo_lib :: library where
  "demo_lib =
     \<lparr>parse_number = map_of [(''2'', Fin 2), (''45'', Fin 45), (''100'', Fin 100)],
      to_datetime = (\<lambda>s. Inr (map demo_date s)),
      float_sum = foldl fadd (Fin 0),
      group_sum = foldl fadd (Fin 0),
      object_sum = (\<lambda>s. None),
      object_mean = (\<lambda>s. None),
      object_group_sums = (\<lambda>k g s. None),
      recent_cutoff = 1675000000000000000,
      format_1f = (\<lambda>x. ''?''),
      str_of = (\<lambda>x. if x = 7 then ''7'' else if x = 30 then ''30'' else if x = 40 then ''40''
                     else if x = 3 then ''3.0'' else ''?'')\<rparr>"

definition stock_table :: frame where
  "stock_table =
     \<lparr>nrows = 3,
      cols = [(''current_stock'', [Num (Fin 10), Num (Fin 0), Num (Fin 500)]),
              (''days_of_supply'', [Num (Fin 2), Text ''n/a'', Text ''45''])]\<rparr>"

definition days_only :: frame where
  "days_only = \<lparr>nrows = 1, cols = [(''days_of_supply'', [Num (Fin 2)])]\<rparr>"

definition two_months :: frame where
  "two_months =
     \<lparr>nrows = 4,
      cols = [(''date'', [Text ''2023-01-05'', Text ''2023-01-20'', Text ''2023-02-01'',
                          Text ''2023-02-15'']),
              (''revenue'', [Num (Fin 100), Num (Fin 50), Num (Fin 200), Num (Fin 60)])]\<rparr>"


definition helper_named :: frame where
  "helper_named =
     \<lparr>nrows = 1, cols = [(''_date'', [Text ''2023-01-05'']), (''_month_str'', [Text ''old''])]\<rparr>"

definition unit_price_only :: frame where
  "unit_price_only =
     \<lparr>nrows = 2,
      cols = [(''order_id'', [Num (Fin 1), Num (Fin 2)]), (''unit_price'', [Num (Fin 3), Num (Fin 4)])]\<rparr>"

definition text_quantity :: frame where
  "text_quantity = \<lparr>nrows = 2, cols = [(''qty'', [Text ''two'', Num NaN])]\<rparr>"

definition quantity_table :: frame where
  "quantity_table = \<lparr>nrows = 2, cols = [(''quantity'', [Text ''n/a'', Text ''2''])]\<rparr>"

definition campaigns :: frame where
  "campaigns =
     \<lparr>nrows = 3,
      cols = [(''campaign_name'', [Text ''B'', Text ''A'', Text ''B'']),
              (''spend'', [Num (Fin 100), Num (Fin 0), Num (Fin 50)]),
              (''clicks'', [Num (Fin 10), Num (Fin 0), Num (Fin 5)]),
              (''sales'', [Num (Fin 300), Num (Fin 50), Num (Fin 0)])]\<rparr>"

definition dup_spend :: frame where
  "dup_spend =
     \<lparr>nrows = 1,
      cols = [(''campaign_name'', [Text ''A'']), (''spend'', [Num (Fin 5)]), (''spend'', [Num (Fin 6)])]\<rparr>"

definition four_ratings :: frame where
  "four_ratings =
     \<lparr>nrows = 4, cols = [(''rating'', [Num (Fin 1), Num (Fin 1), Num (Fin 5), Num (Fin 5)])]\<rparr>"

text \<open>
  A sales table after cleaning: the label \<open>qty\<close> stands twice (\<open>Qty\<close> and \<open>qty\<close> in the
  file), so the cleaner left both columns as loaded, and one of them holds a text and
  an empty cell.
\<close>

definition mixed_quantity :: frame where
  "mixed_quantity =
     \<lparr>nrows = 2,
      cols = [(''qty'', [Text ''two'', Num NaN]), (''qty'', [Num (Fin 1), Num (Fin 2)])]\<rparr>"

text \<open>
  An advertising table with one campaign whose sales are \<open>2 ^ 1020\<close>, the float
  \<open>1.1235582092889474e+307\<close>.
\<close>

definition large_amount :: real where
  "large_amount = 2 ^ 1020"

definition large_sales :: frame where
  "large_sales =
     \<lparr>nrows = 1,
      cols = [(''campaign_name'', [Text ''A'']), (''spend'', [Num (Fin 1)]),
              (''clicks'', [Num (Fin 1)]), (''sales'', [Num (Fin large_amount)])]\<rparr>"
section \<open>Properties of the string functions\<close>

lemma lower_char_idem: "lower_char (lower_char c) = lower_char c"
  by (cases c) (auto simp: lower_char_def is_upper_def)

lemma lower_idem: "lower (lower s) = lower s"
  by (simp add: lower_def lower_char_idem)

lemma underscore_facts:
  "is_word (CHR ''_'')" "\<not> is_space (CHR ''_'')" "lower_char (CHR ''_'') = CHR ''_''"
  by (simp_all add: is_word_def is_space_def lower_char_def is_upper_def)

lemma word_not_space: "is_word c \<Longrightarrow> \<not> is_space c"
  by (auto simp: is_word_def is_alnum_def is_space_def Let_def)

lemma sub_runs_all: "list_all Q s \<Longrightarrow> Q (CHR ''_'') \<Longrightarrow> list_all Q (sub_runs p b s)"
  by (induction s arbitrary: b) auto

lemma sub_runs_not_p: "\<not> p (CHR ''_'') \<Longrightarrow> list_all (\<lambda>c. \<not> p c) (sub_runs p b s)"
  by (induction s arbitrary: b) auto

lemma sub_runs_id: "list_all (\<lambda>c. \<not> p c) s \<Longrightarrow> sub_runs p b s = s"
  by (induction s arbitrary: b) auto

lemma no_run_sub_runs: "no_run (\<lambda>c. c = CHR ''_'') b (sub_runs (\<lambda>c. c = CHR ''_'') b s)"
  by (induction s arbitrary: b) auto

lemma sub_runs_underscore_id:
  "no_run (\<lambda>c. c = CHR ''_'') b s \<Longrightarrow> sub_runs (\<lambda>c. c = CHR ''_'') b s = s"
  by (induction s arbitrary: b) auto

lemma dropWhile_none: "list_all (\<lambda>c. \<not> P c) s \<Longrightarrow> dropWhile P s = s"
  by (cases s) auto

lemma strip_id: "list_all (\<lambda>c. \<not> is_space c) s \<Longrightarrow> strip s = s"
  by (simp add: strip_def dropWhile_none list_all_iff)

lemma strip_all: "list_all Q s \<Longrightarrow> list_all Q (strip s)"
  unfolding strip_def list_all_iff by (auto dest!: set_dropWhileD)

lemma standardize_normal:
  "list_all normal_char (standardize_column_name s) \<and>
   no_run (\<lambda>c. c = CHR ''_'') False (standardize_column_name s)"
proof -
  let ?a = "strip (lower s)"
  let ?b = "sub_special ?a"
  let ?c = "sub_runs is_space False ?b"
  have a: "list_all (\<lambda>c. lower_char c = c) ?a"
    by (rule strip_all) (simp add: lower_def list_all_iff lower_char_idem)
  have b: "list_all (\<lambda>c. (is_word c \<or> is_space c) \<and> lower_char c = c) ?b"
    using a by (auto simp: sub_special_def list_all_iff underscore_facts)
  have c1: "list_all (\<lambda>c. (is_word c \<or> is_space c) \<and> lower_char c = c) ?c"
    using b by (rule sub_runs_all) (simp add: underscore_facts)
  have c2: "list_all (\<lambda>c. \<not> is_space c) ?c"
    by (rule sub_runs_not_p) (simp add: underscore_facts)
  have c: "list_all normal_char ?c"
    using c1 c2 by (auto simp: list_all_iff normal_char_def)
  have d: "list_all normal_char (sub_runs (\<lambda>c. c = CHR ''_'') False ?c)"
    using c by (rule sub_runs_all) (simp add: normal_char_def underscore_facts)
  show ?thesis
    using d by (simp add: standardize_column_name_def no_run_sub_runs)
qed

lemma standardize_fixes_normal:
  assumes "list_all normal_char r" and "no_run (\<lambda>c. c = CHR ''_'') False r"
  shows "standardize_column_name r = r"
proof -
  have ns: "list_all (\<lambda>c. \<not> is_space c) r"
    using assms(1) by (auto simp: list_all_iff normal_char_def word_not_space)
  have l: "lower r = r"
    using assms(1) by (auto simp: lower_def list_all_iff normal_char_def intro: map_idI)
  have s: "strip r = r" using ns by (rule strip_id)
  have sp: "sub_special r = r"
    using assms(1) by (auto simp: sub_special_def list_all_iff normal_char_def intro: map_idI)
  have sr: "sub_runs is_space False r = r" using ns by (rule sub_runs_id)
  have su: "sub_runs (\<lambda>c. c = CHR ''_'') False r = r"
    using assms(2) by (rule sub_runs_underscore_id)
  show ?thesis by (simp add: standardize_column_name_def l s sp sr su)
qed

text \<open>
  Claim C5. Normalising a column name twice gives what normalising it once gives: a
  normalised name is returned unchanged.
\<close>

theorem standardize_column_name_idempotent:
  "standardize_column_name (standardize_column_name name) = standardize_column_name name"
  using standardize_normal [of name] by (auto intro: standardize_fixes_normal)

lemma file_bucket_spec: "file_bucket f = classify_spec f"
  by (simp add: file_bucket_def classify_spec_def domain_patterns_def any_in_def)

lemma file_bucket_names: "file_bucket f \<in> set bucket_names"
  by (simp add: file_bucket_def bucket_names_def Let_def)

lemma categorize_apply:
  "m (file_bucket f) \<noteq> None \<Longrightarrow>
   categorize m f k = map_option (\<lambda>l. l @ (if file_bucket f = k then [f] else [])) (m k)"
  by (cases "m k") (auto simp: categorize_def append_to_def)

lemma foldl_categorize:
  "(\<And>f. m (file_bucket f) \<noteq> None) \<Longrightarrow>
   foldl categorize m fs k = map_option (\<lambda>l. l @ filter (\<lambda>f. file_bucket f = k) fs) (m k)"
proof (induction fs arbitrary: m)
  case Nil
  then show ?case by (simp add: option.map_ident)
next
  case (Cons f fs)
  have "\<And>g. categorize m f (file_bucket g) \<noteq> None"
    using Cons.prems by (simp add: categorize_apply)
  then have "foldl categorize (categorize m f) fs k =
     map_option (\<lambda>l. l @ filter (\<lambda>f. file_bucket f = k) fs) (categorize m f k)"
    by (rule Cons.IH)
  then show ?case
    using Cons.prems [of f] by (cases "m k") (auto simp: categorize_apply)
qed

lemma empty_buckets_dom: "empty_buckets k \<noteq> None \<longleftrightarrow> k \<in> set bucket_names"
  by (simp add: empty_buckets_def bucket_names_def)

lemma discover_files_eq:
  "discover_files fs k =
     (if k \<in> set bucket_names then Some (filter (\<lambda>f. file_bucket f = k) fs) else None)"
proof -
  have "\<And>f. empty_buckets (file_bucket f) \<noteq> None"
    using file_bucket_names by (simp only: empty_buckets_dom)
  then have "foldl categorize empty_buckets fs k =
     map_option (\<lambda>l. l @ filter (\<lambda>f. file_bucket f = k) fs) (empty_buckets k)"
    by (rule foldl_categorize)
  then show ?thesis
    unfolding discover_files_def
    by (auto simp: empty_buckets_def bucket_names_def)
qed

text \<open>
  Claim C9. Each bucket of \<open>discover_files\<close> holds, in the order of the listing, the
  files that the priority rule (sales, then inventory, then advertising, then reviews,
  else other; the first domain with a matching pattern wins) sends to it; the rule
  always names one of the five buckets, and every listed file is in exactly one bucket.
\<close>

theorem discover_files_first_match:
  "discover_files fs k =
     (if k \<in> set bucket_names then Some (filter (\<lambda>f. classify_spec f = k) fs) else None)
   \<and> classify_spec f \<in> set bucket_names
   \<and> (f \<in> set fs \<longrightarrow> (\<exists>!b. \<exists>l. discover_files fs b = Some l \<and> f \<in> set l))"
proof -
  have 1: "discover_files fs k =
     (if k \<in> set bucket_names then Some (filter (\<lambda>f. classify_spec f = k) fs) else None)" for k
    using discover_files_eq [of fs k] by (simp add: file_bucket_spec)
  have 2: "classify_spec f \<in> set bucket_names"
    using file_bucket_names [of f] by (simp add: file_bucket_spec)
  have 3: "\<exists>!b. \<exists>l. discover_files fs b = Some l \<and> f \<in> set l" if "f \<in> set fs"
  proof (rule ex1I [of _ "classify_spec f"])
    show "\<exists>l. discover_files fs (classify_spec f) = Some l \<and> f \<in> set l"
      using that 2 by (simp add: 1)
  next
    fix b assume "\<exists>l. discover_files fs b = Some l \<and> f \<in> set l"
    then show "b = classify_spec f"
      by (auto simp: 1 split: if_splits)
  qed
  from 1 2 3 show ?thesis by blast
qed

theorem discover_files_first_match_witness:
  "''ad_reviews.csv'' \<in> set [''Sales_Stock.csv'', ''ad_reviews.csv'', ''notes.csv'']
   \<and> (\<exists>!b. \<exists>l. discover_files [''Sales_Stock.csv'', ''ad_reviews.csv'', ''notes.csv''] b = Some l
         \<and> ''ad_reviews.csv'' \<in> set l)
   \<and> discover_files [''Sales_Stock.csv'', ''ad_reviews.csv'', ''notes.csv''] ''advertising''
       = Some [''ad_reviews.csv'']
   \<and> discover_files [''Sales_Stock.csv'', ''ad_reviews.csv'', ''notes.csv''] ''sales''
       = Some [''Sales_Stock.csv'']
   \<and> discover_files [''Sales_Stock.csv'', ''ad_reviews.csv'', ''notes.csv''] ''other''
       = Some [''notes.csv'']"
  using discover_files_first_match [of "[''Sales_Stock.csv'', ''ad_reviews.csv'', ''notes.csv'']" "''advertising''" "''ad_reviews.csv''"]
    discover_files_first_match [of "[''Sales_Stock.csv'', ''ad_reviews.csv'', ''notes.csv'']" "''sales''" "''ad_reviews.csv''"]
    discover_files_first_match [of "[''Sales_Stock.csv'', ''ad_reviews.csv'', ''notes.csv'']" "''other''" "''ad_reviews.csv''"]
  by (simp add: classify_spec_def domain_patterns_def bucket_names_def lower_def lower_char_def is_upper_def)

section \<open>Properties of tables\<close>

lemmas string_eval = lower_def lower_char_def is_upper_def any_in_def

lemmas frame_eval = column_names_def select_def assign_def mask_rows_def keep_def head_def
  take_rows_def

lemmas group_eval = group_keys_def group_sums_def grouped_sum_def nansum_def nanmean_def
  series_sum_def series_mean_def df_agg_def

lemmas float_eval = binary64_def exponent_def pow2_def round_half_even_def bit_length.simps
  fround2_def

lemma select_assign_other: "n \<noteq> c \<Longrightarrow> select (assign df c s) n = select df n"
proof -
  assume n: "n \<noteq> c"
  have "filter (\<lambda>col. fst col = n) (map (\<lambda>col. if fst col = c then (c, s) else col) xs)
        = filter (\<lambda>col. fst col = n) xs" for xs
    using n by (induction xs) auto
  then show ?thesis using n by (simp add: select_def assign_def)
qed

lemma select_nonempty_names: "select df c = x # xs \<Longrightarrow> c \<in> set (column_names df)"
proof -
  assume "select df c = x # xs"
  then have "filter (\<lambda>col. fst col = c) (cols df) \<noteq> []" by (auto simp: select_def)
  then obtain col where "col \<in> set (cols df)" "fst col = c"
    by (metis (mono_tags, lifting) filter_False)
  then show ?thesis by (auto simp: column_names_def)
qed

lemma select_assign_same:
  assumes "select df c = [s0]" shows "select (assign df c s) c = [s]"
proof -
  have len: "length (filter (\<lambda>col. fst col = c) xs) = 1 \<Longrightarrow>
      map snd (filter (\<lambda>col. fst col = c) (map (\<lambda>col. if fst col = c then (c, s) else col) xs)) = [s]" for xs
  proof (induction xs)
    case Nil then show ?case by simp
  next
    case (Cons a xs)
    show ?case
    proof (cases "fst a = c")
      case True
      with Cons.prems have "filter (\<lambda>col. fst col = c) xs = []" by simp
      then have "\<forall>col \<in> set xs. fst col \<noteq> c" by (simp add: filter_empty_conv)
      then have "filter (\<lambda>col. fst col = c) (map (\<lambda>col. if fst col = c then (c, s) else col) xs) = []"
        by (auto simp: filter_empty_conv)
      with True show ?thesis by simp
    next
      case False
      with Cons show ?thesis by simp
    qed
  qed
  from assms have "length (filter (\<lambda>col. fst col = c) (cols df)) = 1"
    by (simp add: select_def flip: length_map [of snd])
  from len [OF this] select_nonempty_names [OF assms] show ?thesis
    by (simp add: select_def assign_def)
qed

lemma column_names_assign:
  "c \<in> set (column_names df) \<Longrightarrow> column_names (assign df c s) = column_names df"
  by (auto simp: assign_def column_names_def intro!: map_idI [symmetric] simp: comp_def)

lemma column_names_assign_new:
  "c \<notin> set (column_names df) \<Longrightarrow> column_names (assign df c s) = column_names df @ [c]"
  by (simp add: assign_def column_names_def)

lemma select_absent: "c \<notin> set (column_names df) \<Longrightarrow> select df c = []"
  by (auto simp: select_def column_names_def filter_empty_conv)

lemma select_assign_new: "c \<notin> set (column_names df) \<Longrightarrow> select (assign df c s) c = [s]"
  using select_absent [of c df] by (simp add: assign_def select_def)

text \<open>Assigning to a label that stands at most once leaves it standing once.\<close>

lemma select_assign_single:
  "length (select df c) \<le> 1 \<Longrightarrow> select (assign df c s) c = [s]"
proof (cases "c \<in> set (column_names df)")
  case False
  then show ?thesis by (rule select_assign_new)
next
  case True
  assume "length (select df c) \<le> 1"
  moreover from True have "select df c \<noteq> []"
    by (auto simp: select_def column_names_def filter_empty_conv)
  ultimately obtain s0 where "select df c = [s0]"
    by (cases "select df c") auto
  then show ?thesis by (rule select_assign_same)
qed

lemma column_names_assign_cases:
  "column_names (assign df c s) = column_names df @ filter (\<lambda>h. h \<notin> set (column_names df)) [c]"
  by (simp add: column_names_assign column_names_assign_new)


section \<open>Properties of the cleaners\<close>

lemma to_numeric_Num: "to_numeric lib (map Num xs) = xs"
  by (simp add: to_numeric_def comp_def)

lemma to_numeric_Num_fillna0: "to_numeric lib (map (Num \<circ> fillna0) xs) = map fillna0 xs"
  by (simp add: to_numeric_def comp_def)

lemma fillna0_idem: "fillna0 (fillna0 x) = fillna0 x"
  by (cases x) auto

lemma coerce_inventory_select:
  "select df n = [s] \<Longrightarrow>
   select (coerce_inventory_column lib df col) n =
     (if col = n \<and> any_in inventory_numeric_patterns (lower n)
      then [map (Num \<circ> fillna0) (to_numeric lib s)] else [s])"
  by (cases "col = n")
     (auto simp: coerce_inventory_column_def select_assign_same select_assign_other
           split: list.splits)

lemma foldl_coerce_inventory:
  "select df n = [s] \<Longrightarrow>
   select (foldl (coerce_inventory_column lib) df ns) n =
     (if n \<in> set ns \<and> any_in inventory_numeric_patterns (lower n)
      then [map (Num \<circ> fillna0) (to_numeric lib s)] else [s])"
proof (induction ns arbitrary: df s)
  case Nil
  then show ?case by simp
next
  case (Cons col ns)
  note step = coerce_inventory_select [OF Cons.prems, of lib col]
  show ?case
  proof (cases "col = n \<and> any_in inventory_numeric_patterns (lower n)")
    case True
    with step have "select (coerce_inventory_column lib df col) n
        = [map (Num \<circ> fillna0) (to_numeric lib s)]" by simp
    from Cons.IH [OF this] True show ?thesis
      by (simp add: to_numeric_Num_fillna0 fillna0_idem)
  next
    case False
    with step have "select (coerce_inventory_column lib df col) n = [s]" by auto
    from Cons.IH [OF this] False show ?thesis by auto
  qed
qed

lemma clean_inventory_select:
  assumes "select df c = [s]" and "any_in inventory_numeric_patterns (lower c)"
  shows "select (clean_inventory_data lib df) c = [map (Num \<circ> fillna0) (to_numeric lib s)]"
  using foldl_coerce_inventory [OF assms(1), of lib "column_names df"]
    select_nonempty_names [OF assms(1)] assms(2)
  by (simp add: clean_inventory_data_def)

lemma coerce_sales_select:
  "select df n = [s] \<Longrightarrow>
   select (coerce_sales_column lib df col) n =
     (if col = n \<and> any_in sales_numeric_patterns (lower n)
      then [map Num (to_numeric lib s)] else [s])"
  by (cases "col = n")
     (auto simp: coerce_sales_column_def select_assign_same select_assign_other
           split: list.splits)

lemma foldl_coerce_sales:
  "select df n = [s] \<Longrightarrow>
   select (foldl (coerce_sales_column lib) df ns) n =
     (if n \<in> set ns \<and> any_in sales_numeric_patterns (lower n)
      then [map Num (to_numeric lib s)] else [s])"
proof (induction ns arbitrary: df s)
  case Nil
  then show ?case by simp
next
  case (Cons col ns)
  note step = coerce_sales_select [OF Cons.prems, of lib col]
  show ?case
  proof (cases "col = n \<and> any_in sales_numeric_patterns (lower n)")
    case True
    with step have "select (coerce_sales_column lib df col) n = [map Num (to_numeric lib s)]"
      by simp
    from Cons.IH [OF this] True show ?thesis
      by (simp add: to_numeric_Num)
  next
    case False
    with step have "select (coerce_sales_column lib df col) n = [s]" by auto
    from Cons.IH [OF this] False show ?thesis by auto
  qed
qed

lemma convert_dates_select_other:
  "d \<noteq> c \<Longrightarrow> select (convert_dates lib df d) c = select df c"
  by (auto simp: convert_dates_def select_assign_other split: list.splits sum.splits)

lemma convert_dates_names: "column_names (convert_dates lib df d) = column_names df"
  by (auto simp: convert_dates_def column_names_assign select_nonempty_names
      split: list.splits sum.splits)

lemma clean_sales_select:
  assumes "select df c = [s]" and "any_in sales_numeric_patterns (lower c)"
    and "find_date_column (column_names df) \<noteq> Some c"
  shows "select (clean_sales_data lib df) c = [map Num (to_numeric lib s)]"
proof -
  define df1 where "df1 = (case find_date_column (column_names df) of
                        None \<Rightarrow> df | Some date_col \<Rightarrow> convert_dates lib df date_col)"
  have 1: "select df1 c = [s]"
    using assms(1,3) by (auto simp: df1_def convert_dates_select_other split: option.splits)
  have 2: "column_names df1 = column_names df"
    by (auto simp: df1_def convert_dates_names split: option.splits)
  have "clean_sales_data lib df = foldl (coerce_sales_column lib) df1 (column_names df1)"
    by (simp add: clean_sales_data_def df1_def Let_def)
  with foldl_coerce_sales [OF 1, of lib "column_names df1"] 2
    select_nonempty_names [OF assms(1)] assms(2)
  show ?thesis by simp
qed

lemma not_single_cases: "length xs \<noteq> 1 \<Longrightarrow> (case xs of [s] \<Rightarrow> f s | _ \<Rightarrow> d) = d"
  by (cases xs; cases "tl xs") auto

lemma coerce_inventory_select_repeated:
  assumes "length (select df n) \<noteq> 1"
  shows "select (coerce_inventory_column lib df col) n = select df n"
proof (cases "col = n")
  case True
  with assms show ?thesis by (simp add: coerce_inventory_column_def not_single_cases)
next
  case False
  then show ?thesis
    by (auto simp: coerce_inventory_column_def select_assign_other split: list.splits)
qed

lemma foldl_coerce_inventory_repeated:
  "length (select df n) \<noteq> 1 \<Longrightarrow>
   select (foldl (coerce_inventory_column lib) df ns) n = select df n"
  by (induction ns arbitrary: df) (simp_all add: coerce_inventory_select_repeated)

lemma coerce_sales_select_repeated:
  assumes "length (select df n) \<noteq> 1"
  shows "select (coerce_sales_column lib df col) n = select df n"
proof (cases "col = n")
  case True
  with assms show ?thesis by (simp add: coerce_sales_column_def not_single_cases)
next
  case False
  then show ?thesis
    by (auto simp: coerce_sales_column_def select_assign_other split: list.splits)
qed

lemma foldl_coerce_sales_repeated:
  "length (select df n) \<noteq> 1 \<Longrightarrow>
   select (foldl (coerce_sales_column lib) df ns) n = select df n"
  by (induction ns arbitrary: df) (simp_all add: coerce_sales_select_repeated)

lemma convert_dates_select_repeated:
  assumes "length (select df n) \<noteq> 1"
  shows "select (convert_dates lib df d) n = select df n"
proof (cases "d = n")
  case True
  with assms show ?thesis by (simp add: convert_dates_def not_single_cases)
next
  case False
  then show ?thesis by (simp add: convert_dates_select_other)
qed

lemma clean_repeated:
  assumes "length (select df c) \<noteq> 1"
  shows "select (clean_inventory_data lib df) c = select df c"
    and "select (clean_sales_data lib df) c = select df c"
proof -
  show "select (clean_inventory_data lib df) c = select df c"
    using assms by (simp add: clean_inventory_data_def foldl_coerce_inventory_repeated)
  have "length (select (case find_date_column (column_names df) of
                        None \<Rightarrow> df | Some date_col \<Rightarrow> convert_dates lib df date_col) c) \<noteq> 1"
    using assms by (simp add: convert_dates_select_repeated split: option.splits)
  from foldl_coerce_sales_repeated [OF this] assms
  show "select (clean_sales_data lib df) c = select df c"
    by (simp add: clean_sales_data_def Let_def convert_dates_select_repeated split: option.splits)
qed

text \<open>
  Claim C4 (amended). The cleaners never raise (they are total: every conversion that
  raises is caught). In a column whose label stands once in the table and matches a
  numeric pattern, a text that is no number becomes zero in an inventory table; in a
  sales table it becomes NaN, provided the column is not the one converted to dates.
  The columns of a repeated label are left as they were loaded.
\<close>

theorem cleaning_sentinels:
  "(select df c = [s] \<and> i < length s \<and> s ! i = Text t \<and> parse_number lib t = None \<longrightarrow>
      (any_in inventory_numeric_patterns (lower c) \<longrightarrow>
         (\<exists>s'. select (clean_inventory_data lib df) c = [s'] \<and> length s' = length s
               \<and> s' ! i = Num (Fin 0)))
      \<and> (any_in sales_numeric_patterns (lower c) \<and> find_date_column (column_names df) \<noteq> Some c \<longrightarrow>
         (\<exists>s'. select (clean_sales_data lib df) c = [s'] \<and> length s' = length s
               \<and> s' ! i = Num NaN)))
   \<and> (length (select df c) \<noteq> 1 \<longrightarrow>
        select (clean_inventory_data lib df) c = select df c
        \<and> select (clean_sales_data lib df) c = select df c)"
  by (auto simp: clean_inventory_select clean_sales_select to_numeric_def clean_repeated)

theorem cleaning_sentinels_witness:
  "select quantity_table ''quantity'' = [[Text ''n/a'', Text ''2'']]
   \<and> parse_number demo_lib ''n/a'' = None
   \<and> any_in inventory_numeric_patterns (lower ''quantity'')
   \<and> any_in sales_numeric_patterns (lower ''quantity'')
   \<and> find_date_column (column_names quantity_table) = None
   \<and> select (clean_inventory_data demo_lib quantity_table) ''quantity'' = [[Num (Fin 0), Num (Fin 2)]]
   \<and> select (clean_sales_data demo_lib quantity_table) ''quantity'' = [[Num NaN, Num (Fin 2)]]"
  using cleaning_sentinels [where df = quantity_table and c = "''quantity''"
      and s = "[Text ''n/a'', Text ''2'']" and i = 0 and t = "''n/a''" and lib = demo_lib]
  by (simp add: quantity_table_def demo_lib_def clean_inventory_data_def clean_sales_data_def
      coerce_inventory_column_def coerce_sales_column_def inventory_numeric_patterns_def
      sales_numeric_patterns_def to_numeric_def string_eval frame_eval)

text \<open>
  Claim C4 as stated fails. In a sales table the column \<open>lifetime_revenue\<close> is first
  converted to dates (its label contains \<open>time\<close>) and then to numbers (it contains
  \<open>revenue\<close>): the text \<open>unknown\<close> becomes \<open>NaT\<close> and then the smallest 64-bit integer, not
  NaN. In an inventory table with the label \<open>stock\<close> twice, \<open>pd.to_numeric\<close> raises on
  the \<open>DataFrame\<close>, the exception is dropped, and the text stays.
\<close>

theorem cleaning_sentinels_counterexample:
  "clean_sales_data demo_lib \<lparr>nrows = 1, cols = [(''lifetime_revenue'', [Text ''unknown''])]\<rparr>
     = \<lparr>nrows = 1, cols = [(''lifetime_revenue'', [Num (Fin (- (2 ^ 63)))])]\<rparr>
   \<and> clean_inventory_data demo_lib
       \<lparr>nrows = 1, cols = [(''stock'', [Text ''unknown'']), (''stock'', [Num (Fin 4)])]\<rparr>
     = \<lparr>nrows = 1, cols = [(''stock'', [Text ''unknown'']), (''stock'', [Num (Fin 4)])]\<rparr>"
  by (simp add: clean_sales_data_def clean_inventory_data_def convert_dates_def
      coerce_sales_column_def coerce_inventory_column_def sales_numeric_patterns_def
      inventory_numeric_patterns_def to_numeric_def demo_lib_def string_eval frame_eval)

section \<open>Properties of the inventory analysis\<close>

lemma nrows_mask_rows: "nrows (mask_rows (map P xs) df) = length (filter P xs)"
  by (simp add: mask_rows_def filter_map comp_def)

lemma keep_map: "keep (map P xs) xs = filter P xs"
  by (induction xs) (auto simp: keep_def)

lemma filter_filter_conj: "filter P (filter Q xs) = filter (\<lambda>x. Q x \<and> P x) xs"
  by (induction xs) auto

lemma low_stock_analysis_alerts:
  "snd (low_stock_analysis lib cfg df days m) =
     (let n_low = length (filter (\<lambda>d. flt d (Fin (low_stock_days cfg))) days);
          n_crit = length (filter (\<lambda>d. flt d (Fin (low_stock_days cfg)) \<and> flt d (Fin 3)) days);
          n_over = length (filter (\<lambda>d. fgt d (Fin (overstock_days cfg))) days)
      in (if n_low > 0
          then (if n_crit > 0 then [critical_alert n_crit] else []) @ [low_stock_alert lib cfg n_low]
          else [])
         @ (if n_over > 0 then [overstock_alert lib cfg n_over] else []))"
  by (simp add: low_stock_analysis_def Let_def nrows_mask_rows keep_map filter_filter_conj)

lemma critical_in_append: "critical_in (xs @ ys) \<longleftrightarrow> critical_in xs \<or> critical_in ys"
  by (simp add: critical_in_def)

lemma critical_in_low_stock:
  "critical_in (snd (low_stock_analysis lib cfg df days m)) \<longleftrightarrow>
     (\<exists>x \<in> set days. flt x (Fin (low_stock_days cfg)) \<and> flt x (Fin 3))"
proof -
  have "(\<exists>x \<in> set days. flt x (Fin (low_stock_days cfg)) \<and> flt x (Fin 3)) \<longleftrightarrow>
      filter (\<lambda>d. flt d (Fin (low_stock_days cfg)) \<and> flt d (Fin 3)) days \<noteq> []"
    by (auto simp: filter_empty_conv)
  moreover have "filter (\<lambda>d. flt d (Fin (low_stock_days cfg)) \<and> flt d (Fin 3)) days \<noteq> [] \<Longrightarrow>
      filter (\<lambda>d. flt d (Fin (low_stock_days cfg))) days \<noteq> []"
    by (auto simp: filter_empty_conv)
  ultimately show ?thesis
    by (auto simp: low_stock_analysis_alerts Let_def critical_in_def critical_alert_def
        low_stock_alert_def overstock_alert_def)
qed

lemma stock_analysis_closed:
  assumes "length (select df sc) \<noteq> 1 \<or> days_col = None
           \<or> (\<exists>dc. days_col = Some dc \<and> length (select df dc) \<noteq> 1)"
  shows "snd (stock_analysis lib cfg df sc days_col m) = []"
proof (cases "length (select df sc) \<noteq> 1")
  case True
  then show ?thesis by (simp add: stock_analysis_def not_single_cases)
next
  case False
  then obtain s where s: "select df sc = [s]"
    by (cases "select df sc") auto
  from assms False consider "days_col = None"
    | dc where "days_col = Some dc" "length (select df dc) \<noteq> 1" by blast
  then show ?thesis
  proof cases
    case 1
    with s show ?thesis by (simp add: stock_analysis_def)
  next
    case 2
    with s show ?thesis by (simp add: stock_analysis_def Let_def not_single_cases)
  qed
qed

lemma inventory_no_alerts:
  assumes "find_stock_col (column_names df) = None
     \<or> (\<exists>sc. find_stock_col (column_names df) = Some sc \<and> length (select df sc) \<noteq> 1)
     \<or> first_containing ''days'' (column_names df) = None
     \<or> (\<exists>dc. first_containing ''days'' (column_names df) = Some dc \<and> length (select df dc) \<noteq> 1)"
  shows "alerts_of (analyze_inventory lib cfg df self) = alerts self"
proof (cases "find_stock_col (column_names df)")
  case None
  then show ?thesis by (simp add: analyze_inventory_def alerts_of_def)
next
  case (Some sc)
  with assms have "length (select df sc) \<noteq> 1 \<or> first_containing ''days'' (column_names df) = None
           \<or> (\<exists>dc. first_containing ''days'' (column_names df) = Some dc \<and> length (select df dc) \<noteq> 1)"
    by auto
  from stock_analysis_closed [OF this] Some show ?thesis
    by (simp add: analyze_inventory_def alerts_of_def Let_def split_beta)
qed

text \<open>
  Claim C2 (amended). When a stock column resolves (a label containing \<open>stock\<close> and
  \<open>current\<close> or \<open>available\<close>) and a days-of-supply column resolves (a label containing
  \<open>days\<close>), each label standing once in the table, the analysis appends: the critical
  alert when a low-stock row has fewer than 3 days, then the low-stock alert when there
  is a low-stock row, then the overstock alert when there is an overstock row. In every
  other case it appends no alert.
\<close>

theorem inventory_alerts:
  "(find_stock_col (column_names df) = Some sc \<and> select df sc = [s]
      \<and> first_containing ''days'' (column_names df) = Some dc \<and> select df dc = [d] \<longrightarrow>
      alerts_of (analyze_inventory lib cfg df self) =
        alerts self @
        (let days = to_numeric lib d;
             n_low = length (filter (\<lambda>x. flt x (Fin (low_stock_days cfg))) days);
             n_crit = length (filter (\<lambda>x. flt x (Fin (low_stock_days cfg)) \<and> flt x (Fin 3)) days);
             n_over = length (filter (\<lambda>x. fgt x (Fin (overstock_days cfg))) days)
         in (if n_low > 0
             then (if n_crit > 0 then [critical_alert n_crit] else []) @ [low_stock_alert lib cfg n_low]
             else [])
            @ (if n_over > 0 then [overstock_alert lib cfg n_over] else [])))
   \<and> (find_stock_col (column_names df) = None
        \<or> (\<exists>sc. find_stock_col (column_names df) = Some sc \<and> length (select df sc) \<noteq> 1)
        \<or> first_containing ''days'' (column_names df) = None
        \<or> (\<exists>dc. first_containing ''days'' (column_names df) = Some dc \<and> length (select df dc) \<noteq> 1)
      \<longrightarrow> alerts_of (analyze_inventory lib cfg df self) = alerts self)"
proof (intro conjI impI)
  assume "find_stock_col (column_names df) = Some sc \<and> select df sc = [s]
      \<and> first_containing ''days'' (column_names df) = Some dc \<and> select df dc = [d]"
  then show "alerts_of (analyze_inventory lib cfg df self) =
        alerts self @
        (let days = to_numeric lib d;
             n_low = length (filter (\<lambda>x. flt x (Fin (low_stock_days cfg))) days);
             n_crit = length (filter (\<lambda>x. flt x (Fin (low_stock_days cfg)) \<and> flt x (Fin 3)) days);
             n_over = length (filter (\<lambda>x. fgt x (Fin (overstock_days cfg))) days)
         in (if n_low > 0
             then (if n_crit > 0 then [critical_alert n_crit] else []) @ [low_stock_alert lib cfg n_low]
             else [])
            @ (if n_over > 0 then [overstock_alert lib cfg n_over] else []))"
    using low_stock_analysis_alerts [of lib cfg df "to_numeric lib d"]
    by (simp add: analyze_inventory_def stock_analysis_def alerts_of_def Let_def split_beta)
next
  assume "find_stock_col (column_names df) = None
        \<or> (\<exists>sc. find_stock_col (column_names df) = Some sc \<and> length (select df sc) \<noteq> 1)
        \<or> first_containing ''days'' (column_names df) = None
        \<or> (\<exists>dc. first_containing ''days'' (column_names df) = Some dc \<and> length (select df dc) \<noteq> 1)"
  then show "alerts_of (analyze_inventory lib cfg df self) = alerts self"
    by (rule inventory_no_alerts)
qed

theorem inventory_alerts_witness:
  "find_stock_col (column_names stock_table) = Some ''current_stock''
   \<and> select stock_table ''current_stock'' = [[Num (Fin 10), Num (Fin 0), Num (Fin 500)]]
   \<and> first_containing ''days'' (column_names stock_table) = Some ''days_of_supply''
   \<and> select stock_table ''days_of_supply'' = [[Num (Fin 2), Text ''n/a'', Text ''45'']]
   \<and> alerts_of (analyze_inventory demo_lib Config stock_table new_analyzer)
       = [critical_alert 1, low_stock_alert demo_lib Config 1, overstock_alert demo_lib Config 1]"
  using inventory_alerts [where df = stock_table and sc = "''current_stock''"
      and s = "[Num (Fin 10), Num (Fin 0), Num (Fin 500)]" and dc = "''days_of_supply''"
      and d = "[Num (Fin 2), Text ''n/a'', Text ''45'']" and lib = demo_lib and cfg = Config
      and self = new_analyzer]
  by (simp add: stock_table_def new_analyzer_def to_numeric_def demo_lib_def Config_def fgt_def
      string_eval frame_eval)

text \<open>
  Claim C2 as stated fails: the table of the claim, one row with \<open>days_of_supply\<close> 2
  and no stock column, yields no alert. The days analysis stands under
  \<open>if stock_col and stock_col in inventory_df.columns\<close>.
\<close>

theorem inventory_alerts_counterexample:
  "first_containing ''days'' (column_names days_only) = Some ''days_of_supply''
   \<and> clean_inventory_data demo_lib days_only = days_only
   \<and> analyze_inventory demo_lib Config days_only new_analyzer
     = Inr \<lparr>results = [''inventory'' \<mapsto> [''total_products'' \<mapsto> VInt 1]], alerts = []\<rparr>"
  by (simp add: analyze_inventory_def clean_inventory_data_def coerce_inventory_column_def
      inventory_numeric_patterns_def to_numeric_def days_only_def new_analyzer_def
      string_eval frame_eval)

lemma analyze_inventory_critical:
  "critical_in (alerts_of (analyze_inventory lib cfg df self)) \<longleftrightarrow>
     critical_in (alerts self) \<or> critical_trigger lib cfg df"
proof (cases "find_stock_col (column_names df)")
  case None
  then show ?thesis
    by (simp add: analyze_inventory_def alerts_of_def critical_trigger_def critical_in_def)
next
  case (Some sc)
  show ?thesis
  proof (cases "\<exists>s. select df sc = [s]")
    case False
    then have "stock_analysis lib cfg df sc dcol m = (m, [])" for dcol m
      by (auto simp: stock_analysis_def split: list.splits)
    with Some False show ?thesis
      by (simp add: analyze_inventory_def alerts_of_def critical_trigger_def critical_in_def)
  next
    case True
    then obtain s where s: "select df sc = [s]" by blast
    show ?thesis
    proof (cases "first_containing ''days'' (column_names df)")
      case None
      with Some s show ?thesis
        by (simp add: analyze_inventory_def stock_analysis_def alerts_of_def critical_trigger_def
            critical_in_def)
    next
      case dc: (Some dc)
      show ?thesis
      proof (cases "\<exists>d. select df dc = [d]")
        case False
        with Some s dc show ?thesis
          by (auto simp: analyze_inventory_def stock_analysis_def alerts_of_def critical_trigger_def
              critical_in_def Let_def split: list.splits)
      next
        case True
        then obtain d where d: "select df dc = [d]" by blast
        with Some s dc show ?thesis
          using critical_in_low_stock [of lib cfg df "to_numeric lib d"]
          by (simp add: analyze_inventory_def stock_analysis_def alerts_of_def critical_trigger_def
              critical_in_append split_beta Let_def)
      qed
    qed
  qed
qed


lemma column_names_set_cell: "column_names (set_cell df ci j c) = column_names df"
proof -
  have "(map fst xs)[ci := fst (xs ! ci)] = map fst xs" for xs :: "(string \<times> series) list"
    by (metis list_update_id map_update)
  then show ?thesis by (simp add: set_cell_def column_names_def map_update)
qed

text \<open>How the selection of a label changes when one cell is replaced.\<close>

lemma select_list_update:
  assumes "ci < length xs"
  shows "list_all2 (\<lambda>a b. b = a \<or> (a = snd (xs ! ci) \<and> b = a[j := c]))
           (map snd (filter (\<lambda>col. fst col = n) xs))
           (map snd (filter (\<lambda>col. fst col = n) (xs[ci := (fst (xs ! ci), (snd (xs ! ci))[j := c])])))"
  using assms
proof (induction xs arbitrary: ci)
  case Nil
  then show ?case by simp
next
  case (Cons x xs)
  have refl: "list_all2 (\<lambda>a b. b = a \<or> (a = snd ((x # xs) ! ci) \<and> b = a[j := c])) ys ys" for ys
    by (simp add: list_all2_same)
  show ?case
  proof (cases ci)
    case 0
    then show ?thesis using refl by (auto simp: list_all2_same)
  next
    case (Suc k)
    with Cons.prems have "k < length xs" by simp
    from Cons.IH [OF this] Suc show ?thesis by auto
  qed
qed

lemma select_set_cell:
  assumes "ci < length (cols df)"
  shows "list_all2 (\<lambda>a b. b = a \<or> (a = snd (cols df ! ci) \<and> b = a[j := c]))
           (select df n) (select (set_cell df ci j c) n)"
  using select_list_update [OF assms, where j = j and c = c and n = n]
  by (simp add: select_def set_cell_def)

lemma flt_lowered: "\<not> flt x v \<Longrightarrow> flt v (Fin 3) \<Longrightarrow> flt x y \<Longrightarrow> flt v y"
  by (cases x; cases v; cases y) auto

lemma lowered_series_trigger:
  assumes R: "d' = d \<or> (d = old \<and> d' = d[j := Num v])"
    and v: "flt v (Fin 3)" and old: "j < length old \<longrightarrow> \<not> flt (to_numeric_cell lib (old ! j)) v"
    and x: "\<exists>x \<in> set (to_numeric lib d). flt x y \<and> flt x (Fin 3)"
  shows "\<exists>x \<in> set (to_numeric lib d'). flt x y \<and> flt x (Fin 3)"
proof (cases "d' = d")
  case True
  with x show ?thesis by simp
next
  case False
  with R have d: "d = old" "d' = d[j := Num v]" by auto
  from x obtain i where i: "i < length d" "flt (to_numeric_cell lib (d ! i)) y"
      "flt (to_numeric_cell lib (d ! i)) (Fin 3)"
    by (auto simp: to_numeric_def in_set_conv_nth)
  show ?thesis
  proof (cases "i = j")
    case True
    with i d old have "\<not> flt (to_numeric_cell lib (d ! j)) v" by simp
    from flt_lowered [OF this v] i True have "flt v y" by simp
    moreover have "Num v \<in> set d'"
      using i True d by (simp add: set_update_memI)
    then have "to_numeric_cell lib (Num v) \<in> set (to_numeric lib d')"
      unfolding to_numeric_def set_map by (rule imageI)
    then have "v \<in> set (to_numeric lib d')" by simp
    ultimately show ?thesis using v by blast
  next
    case False
    then have "d' ! i = d ! i" "i < length d'" using i d by simp_all
    then have "d ! i \<in> set d'" by (metis nth_mem)
    then have "to_numeric_cell lib (d ! i) \<in> set (to_numeric lib d')"
      unfolding to_numeric_def set_map by (rule imageI)
    with i show ?thesis by blast
  qed
qed

lemma singleton_all2: "list_all2 R [a] ys \<Longrightarrow> \<exists>b. ys = [b] \<and> R a b"
  by (cases ys) (auto simp: list_all2_Cons1)

lemma critical_trigger_set_cell:
  assumes ci: "ci < length (cols df)" and v: "flt v (Fin 3)"
    and old: "j < length (snd (cols df ! ci)) \<longrightarrow>
                \<not> flt (to_numeric_cell lib (snd (cols df ! ci) ! j)) v"
    and t: "critical_trigger lib cfg df"
  shows "critical_trigger lib cfg (set_cell df ci j (Num v))"
proof -
  from t obtain sc s dc d where
    sc: "find_stock_col (column_names df) = Some sc" and s: "select df sc = [s]" and
    dc: "first_containing ''days'' (column_names df) = Some dc" and d: "select df dc = [d]" and
    x: "\<exists>x \<in> set (to_numeric lib d). flt x (Fin (low_stock_days cfg)) \<and> flt x (Fin 3)"
    unfolding critical_trigger_def by blast
  from select_set_cell [OF ci, where n = sc and j = j and c = "Num v"] s
  obtain s' where s': "select (set_cell df ci j (Num v)) sc = [s']"
    by (auto dest: singleton_all2)
  from select_set_cell [OF ci, where n = dc and j = j and c = "Num v"] d
  obtain d' where d': "select (set_cell df ci j (Num v)) dc = [d']"
      and R: "d' = d \<or> (d = snd (cols df ! ci) \<and> d' = d[j := Num v])"
    by (auto dest: singleton_all2)
  from lowered_series_trigger [OF R v old x] sc dc s' d' show ?thesis
    by (auto simp: critical_trigger_def column_names_set_cell)
qed

text \<open>
  Claim C8. Replacing one cell of an inventory table by a number below 3 that is not
  above the number the cell held (a cell that held no number may take any number below
  3) never removes the critical alert: if the analysis of the table appends it, so
  does the analysis of the changed table.
\<close>

theorem critical_alert_monotone:
  assumes "ci < length (cols df)" and "j < length (snd (cols df ! ci))"
    and "flt v (Fin 3)"
    and "\<not> flt (to_numeric_cell lib (snd (cols df ! ci) ! j)) v"
    and "critical_in (alerts_of (analyze_inventory lib cfg df self))"
  shows "critical_in (alerts_of (analyze_inventory lib cfg (set_cell df ci j (Num v)) self))"
  using assms critical_trigger_set_cell [of ci df v j lib cfg]
  by (auto simp: analyze_inventory_critical)

theorem critical_alert_monotone_witness:
  "1 < length (cols stock_table) \<and> 2 < length (snd (cols stock_table ! 1))
   \<and> flt (Fin 1) (Fin 3)
   \<and> \<not> flt (to_numeric_cell demo_lib (snd (cols stock_table ! 1) ! 2)) (Fin 1)
   \<and> critical_in (alerts_of (analyze_inventory demo_lib Config stock_table new_analyzer))
   \<and> critical_in (alerts_of (analyze_inventory demo_lib Config
                                (set_cell stock_table 1 2 (Num (Fin 1))) new_analyzer))"
proof -
  have "critical_trigger demo_lib Config stock_table"
    by (simp add: critical_trigger_def stock_table_def demo_lib_def Config_def to_numeric_def
        string_eval frame_eval)
  then have before: "critical_in (alerts_of (analyze_inventory demo_lib Config stock_table new_analyzer))"
    by (simp add: analyze_inventory_critical)
  have cell: "1 < length (cols stock_table) \<and> 2 < length (snd (cols stock_table ! 1))
      \<and> \<not> flt (to_numeric_cell demo_lib (snd (cols stock_table ! 1) ! 2)) (Fin 1)"
    by (simp add: stock_table_def demo_lib_def)
  with critical_alert_monotone [of 1 stock_table 2 "Fin 1" demo_lib Config new_analyzer] before
  show ?thesis by simp
qed

section \<open>Properties of the sales analysis\<close>

lemmas sales_eval = analyze_sales_def basic_metrics_def date_metrics_def monthly_metrics_def
  growth_rate_def two_digits_def fgt_def fsub_def get_num_def sales_metric_def recent_mask_def
  datetimelike_def timezone_free_def zones_def

lemma find_revenue_col_find: "find_revenue_col columns = List.find revenue_name columns"
  by (induction columns) (auto simp: revenue_name_def any_in_def Let_def)

lemma basic_metrics_no_revenue:
  "basic_metrics lib df qc None = Inr m \<Longrightarrow>
     m ''total_revenue'' = Some (VInt 0) \<and> m ''avg_order_value'' = Some (VInt 0)
     \<and> m ''monthly_trends'' = None \<and> m ''monthly_growth'' = None \<and> m ''top_products'' = None
     \<and> m ''recent_revenue'' = None"
  by (auto simp: basic_metrics_def split: sum.splits option.splits)

lemma basic_metrics_no_revenue_error:
  "basic_metrics lib df qc None = Inl e \<Longrightarrow>
     (\<exists>q. qc = Some q \<and> df_agg (series_sum lib) (select df q) = Inl e)"
  by (auto simp: basic_metrics_def split: sum.splits option.splits)

lemma date_metrics_no_revenue: "snd (date_metrics lib df dc None m) = m"
  by (auto simp: date_metrics_def Let_def split: list.splits sum.splits)

lemma find_first_qualifying:
  "list_all (\<lambda>c. \<not> P c) pre \<Longrightarrow> P col \<Longrightarrow> List.find P (pre @ col # rest) = Some col"
  by (induction pre) auto

lemma unit_price_total_amount: "\<not> revenue_name ''unit_price'' \<and> revenue_name ''total_amount''"
  by (simp add: revenue_name_def lower_def lower_char_def is_upper_def)

text \<open>
  Claim C6 (amended). The revenue column is the first name, in the order of the columns,
  whose lower-cased form contains one of \<open>total\<close>, \<open>revenue\<close>, \<open>amount\<close>, \<open>price\<close> and does
  not contain \<open>unit\<close>: a qualifying name is selected when no name before it qualifies;
  \<open>unit_price\<close> does not qualify and \<open>total_amount\<close> does. When no name qualifies, no
  revenue column is selected. Then, if the analysis returns, the revenue total and the
  average order value are 0 and no revenue-derived metric is stored; and the analysis
  raises only when the sum of the quantity column raises, in which case no sales record
  is stored at all.
\<close>

theorem revenue_column_resolution:
  "find_revenue_col columns = List.find revenue_name columns
   \<and> (list_all (\<lambda>c. \<not> revenue_name c) pre \<and> revenue_name col \<longrightarrow>
        find_revenue_col (pre @ col # rest) = Some col)
   \<and> \<not> revenue_name ''unit_price'' \<and> revenue_name ''total_amount''
   \<and> (find_revenue_col (column_names df) = None \<longrightarrow>
        (case analyze_sales lib df self of
           Inr (df', self') \<Rightarrow>
             (\<exists>m. results self' ''sales'' = Some m
                \<and> m ''total_revenue'' = Some (VInt 0) \<and> m ''avg_order_value'' = Some (VInt 0)
                \<and> m ''monthly_trends'' = None \<and> m ''recent_revenue'' = None
                \<and> m ''monthly_growth'' = None \<and> m ''top_products'' = None)
         | Inl e \<Rightarrow>
             (\<exists>q. find_quantity_col (column_names df) = Some q
                \<and> df_agg (series_sum lib) (select df q) = Inl e)))"
proof -
  have 1: "find_revenue_col columns = List.find revenue_name columns"
    by (rule find_revenue_col_find)
  have 2: "find_revenue_col (pre @ col # rest) = Some col"
    if "list_all (\<lambda>c. \<not> revenue_name c) pre \<and> revenue_name col"
    using that by (simp add: find_revenue_col_find find_first_qualifying)
  have 3: "case analyze_sales lib df self of
           Inr (df', self') \<Rightarrow>
             (\<exists>m. results self' ''sales'' = Some m
                \<and> m ''total_revenue'' = Some (VInt 0) \<and> m ''avg_order_value'' = Some (VInt 0)
                \<and> m ''monthly_trends'' = None \<and> m ''recent_revenue'' = None
                \<and> m ''monthly_growth'' = None \<and> m ''top_products'' = None)
         | Inl e \<Rightarrow>
             (\<exists>q. find_quantity_col (column_names df) = Some q
                \<and> df_agg (series_sum lib) (select df q) = Inl e)"
    if none: "find_revenue_col (column_names df) = None"
  proof (cases "basic_metrics lib df (find_quantity_col (column_names df)) None")
    case (Inl e)
    with none basic_metrics_no_revenue_error [OF Inl] show ?thesis
      by (simp add: analyze_sales_def)
  next
    case (Inr m)
    from basic_metrics_no_revenue [OF Inr] none Inr show ?thesis
      using date_metrics_no_revenue [of lib df _ m]
      by (auto simp: analyze_sales_def Let_def split_beta split: option.splits prod.splits)
  qed
  from 1 2 3 unit_price_total_amount show ?thesis by blast
qed

theorem revenue_column_resolution_witness:
  "List.find revenue_name [''order_id'', ''unit_price'', ''total_amount'', ''revenue'']
     = Some ''total_amount''
   \<and> find_revenue_col [''order_id'', ''unit_price'', ''total_amount'', ''revenue'']
     = Some ''total_amount''
   \<and> find_revenue_col (column_names unit_price_only) = None
   \<and> analyze_sales demo_lib unit_price_only new_analyzer
     = Inr (unit_price_only,
            \<lparr>results = [''sales'' \<mapsto> [''total_transactions'' \<mapsto> VInt 2, ''total_quantity'' \<mapsto> VInt 0,
                                       ''total_revenue'' \<mapsto> VInt 0, ''avg_order_value'' \<mapsto> VInt 0]],
             alerts = []\<rparr>)"
proof -
  have find: "find_revenue_col [''order_id'', ''unit_price'', ''total_amount'', ''revenue'']
     = Some ''total_amount''"
    by (simp add: string_eval)
  have none: "find_revenue_col (column_names unit_price_only) = None"
    by (simp add: unit_price_only_def string_eval frame_eval)
  have run: "analyze_sales demo_lib unit_price_only new_analyzer
     = Inr (unit_price_only,
            \<lparr>results = [''sales'' \<mapsto> [''total_transactions'' \<mapsto> VInt 2, ''total_quantity'' \<mapsto> VInt 0,
                                       ''total_revenue'' \<mapsto> VInt 0, ''avg_order_value'' \<mapsto> VInt 0]],
             alerts = []\<rparr>)"
    by (simp add: unit_price_only_def new_analyzer_def sales_eval string_eval frame_eval)
  from revenue_column_resolution
      [where columns = "[''order_id'', ''unit_price'', ''total_amount'', ''revenue'']"
         and df = unit_price_only and lib = demo_lib and self = new_analyzer
         and pre = "[''order_id'', ''unit_price'']" and col = "''total_amount''"
         and rest = "[''revenue'']"]
    find none run
  show ?thesis by simp
qed

text \<open>
  Claim C6 as stated fails in its last part. In this table, as the cleaner leaves it,
  no name qualifies; the sum over the two \<open>qty\<close> columns, one of which holds a text, is
  computed outside any \<open>try\<close> and raises \<open>TypeError\<close>: the analysis raises instead of
  storing defaulted metrics.
\<close>

theorem revenue_column_resolution_counterexample:
  "clean_sales_data demo_lib mixed_quantity = mixed_quantity
   \<and> find_revenue_col (column_names mixed_quantity) = None
   \<and> analyze_sales demo_lib mixed_quantity new_analyzer = Inl TypeError"
  by (simp add: mixed_quantity_def new_analyzer_def demo_lib_def clean_sales_data_def
      coerce_sales_column_def sales_numeric_patterns_def sales_eval string_eval frame_eval
      group_eval)













lemma analyze_sales_raises:
  "analyze_sales lib df self = Inl e \<longleftrightarrow>
     basic_metrics lib df (find_quantity_col (column_names df)) (find_revenue_col (column_names df))
       = Inl e"
  by (auto simp: analyze_sales_def Let_def split_beta split: sum.splits)


lemma analyze_sales_returns:
  "basic_metrics lib df (find_quantity_col (column_names df)) (find_revenue_col (column_names df))
     = Inr m \<Longrightarrow> \<exists>df' self'. analyze_sales lib df self = Inr (df', self')"
  by (simp add: analyze_sales_def Let_def split_beta)




lemma date_metrics_table:
  assumes "select df dc = [d]" and "to_datetime lib d = Inr dates"
    and "length (select df ''_date'') \<le> 1"
  shows "fst (date_metrics lib df dc rc m) =
     (if datetimelike dates
      then assign (assign df ''_date'' dates) ''_month_str'' (map month_str dates)
      else assign df ''_date'' dates)"
  using assms select_assign_single [OF assms(3), of dates]
  by (simp add: date_metrics_def Let_def split: option.splits)

lemma analyze_sales_table:
  "analyze_sales lib df self = Inr (df', self') \<Longrightarrow>
   df' = (case first_containing ''date'' (column_names df) of
            None \<Rightarrow> df
          | Some dc \<Rightarrow> fst (date_metrics lib df dc (find_revenue_col (column_names df))
                             (projr (basic_metrics lib df (find_quantity_col (column_names df))
                                (find_revenue_col (column_names df))))))"
  by (auto simp: analyze_sales_def Let_def split_beta split: sum.splits option.splits)

lemma date_metrics_repeated:
  "length (select df dc) \<noteq> 1 \<Longrightarrow> date_metrics lib df dc rc m = (df, m)"
  by (simp add: date_metrics_def not_single_cases)

lemma date_metrics_conversion_raises:
  "select df dc = [d] \<Longrightarrow> to_datetime lib d = Inl e \<Longrightarrow> date_metrics lib df dc rc m = (df, m)"
  by (simp add: date_metrics_def)

lemma then_do_simps [simp]: "then_do (Inl e) f = Inl e" "then_do (Inr x) f = f x"
  by (simp_all add: then_do_def)

lemma sales_step_tables:
  "sales_step lib data self = Inr (d0, s0) \<Longrightarrow>
     inventory d0 = inventory data \<and> advertising d0 = advertising data \<and> reviews d0 = reviews data"
  by (cases "sales data"; cases "analyze_sales lib (the (sales data)) self")
     (auto simp: sales_step_def)

lemma analyze_all_tables:
  assumes "analyze_all lib cfg data self = Inr (data', self')"
  shows "inventory data' = inventory data \<and> advertising data' = advertising data
         \<and> reviews data' = reviews data"
proof (cases "sales_step lib data self")
  case (Inl e)
  with assms show ?thesis by (simp add: analyze_all_def)
next
  case (Inr p)
  obtain d0 s0 where p: "p = (d0, s0)" by (cases p)
  from assms Inr p have "data' = d0"
    by (auto simp: analyze_all_def then_do_def split: sum.splits)
  with sales_step_tables [OF Inr [unfolded p]] show ?thesis by simp
qed

lemma column_names_assign_date:
  "column_names (assign df ''_date'' s) =
     column_names df @ filter (\<lambda>h. h \<notin> set (column_names df)) [''_date'']"
  by (simp add: column_names_assign_cases)

text \<open>
  Claim C10 (amended). The sales analysis writes into the caller's table. It raises
  only from the totals it computes first, before anything is written. When it returns:
  if a date column is found, its label stands once, \<open>pd.to_datetime\<close> returns and the
  label \<open>_date\<close> is not repeated, the table afterwards holds the column \<open>_date\<close> (the
  converted dates); if that column is of the type \<open>datetime64\<close> the table also holds
  \<open>_month_str\<close>, and the column count has grown by the number of those two labels the
  table did not have (by two for a table that had neither, by none for a table that had
  both); if it is not (dates of different time zones), only \<open>_date\<close> has been written.
  Without a date column, with a repeated date label, or when \<open>pd.to_datetime\<close> raises,
  the table is left as it was. The analyses of the other three domains leave their
  tables as they were.
\<close>

theorem sales_helper_columns:
  "(case analyze_sales lib df self of
      Inl e \<Rightarrow>
        basic_metrics lib df (find_quantity_col (column_names df))
          (find_revenue_col (column_names df)) = Inl e
    | Inr (df', self') \<Rightarrow>
        (first_containing ''date'' (column_names df) = None \<longrightarrow> df' = df)
        \<and> (first_containing ''date'' (column_names df) = Some dc \<and> length (select df dc) \<noteq> 1
              \<longrightarrow> df' = df)
        \<and> (first_containing ''date'' (column_names df) = Some dc \<and> select df dc = [d]
              \<and> to_datetime lib d = Inl err \<longrightarrow> df' = df)
        \<and> (first_containing ''date'' (column_names df) = Some dc \<and> select df dc = [d]
              \<and> to_datetime lib d = Inr dates \<and> length (select df ''_date'') \<le> 1 \<longrightarrow>
              select df' ''_date'' = [dates]
              \<and> (datetimelike dates \<longrightarrow>
                   column_names df' =
                     column_names df
                     @ filter (\<lambda>h. h \<notin> set (column_names df)) [''_date'', ''_month_str''])
              \<and> (\<not> datetimelike dates \<longrightarrow>
                   column_names df' =
                     column_names df @ filter (\<lambda>h. h \<notin> set (column_names df)) [''_date''])))
   \<and> (analyze_all lib cfg data self = Inr (data', self'') \<longrightarrow>
        inventory data' = inventory data \<and> advertising data' = advertising data
        \<and> reviews data' = reviews data)"
proof (intro conjI)
  show "case analyze_sales lib df self of
      Inl e \<Rightarrow>
        basic_metrics lib df (find_quantity_col (column_names df))
          (find_revenue_col (column_names df)) = Inl e
    | Inr (df', self') \<Rightarrow>
        (first_containing ''date'' (column_names df) = None \<longrightarrow> df' = df)
        \<and> (first_containing ''date'' (column_names df) = Some dc \<and> length (select df dc) \<noteq> 1
              \<longrightarrow> df' = df)
        \<and> (first_containing ''date'' (column_names df) = Some dc \<and> select df dc = [d]
              \<and> to_datetime lib d = Inl err \<longrightarrow> df' = df)
        \<and> (first_containing ''date'' (column_names df) = Some dc \<and> select df dc = [d]
              \<and> to_datetime lib d = Inr dates \<and> length (select df ''_date'') \<le> 1 \<longrightarrow>
              select df' ''_date'' = [dates]
              \<and> (datetimelike dates \<longrightarrow>
                   column_names df' =
                     column_names df
                     @ filter (\<lambda>h. h \<notin> set (column_names df)) [''_date'', ''_month_str''])
              \<and> (\<not> datetimelike dates \<longrightarrow>
                   column_names df' =
                     column_names df @ filter (\<lambda>h. h \<notin> set (column_names df)) [''_date'']))"
  proof (cases "analyze_sales lib df self")
    case (Inl e)
    then have "basic_metrics lib df (find_quantity_col (column_names df))
          (find_revenue_col (column_names df)) = Inl e"
      by (simp add: analyze_sales_raises)
    with Inl show ?thesis by simp
  next
    case (Inr p)
    obtain df' self' where p: "p = (df', self')" by (cases p)
    from Inr p have run: "analyze_sales lib df self = Inr (df', self')" by simp
    note table = analyze_sales_table [OF run]
    have 1: "df' = df" if "first_containing ''date'' (column_names df) = None"
      using that table by simp
    have 2: "df' = df"
      if "first_containing ''date'' (column_names df) = Some dc \<and> length (select df dc) \<noteq> 1"
      using that table by (simp add: date_metrics_repeated)
    have 3: "df' = df"
      if "first_containing ''date'' (column_names df) = Some dc \<and> select df dc = [d]
              \<and> to_datetime lib d = Inl err"
      using that table by (simp add: date_metrics_conversion_raises)
    have 4: "select df' ''_date'' = [dates]
              \<and> (datetimelike dates \<longrightarrow>
                   column_names df' =
                     column_names df
                     @ filter (\<lambda>h. h \<notin> set (column_names df)) [''_date'', ''_month_str''])
              \<and> (\<not> datetimelike dates \<longrightarrow>
                   column_names df' =
                     column_names df @ filter (\<lambda>h. h \<notin> set (column_names df)) [''_date''])"
      if a: "first_containing ''date'' (column_names df) = Some dc \<and> select df dc = [d]
              \<and> to_datetime lib d = Inr dates \<and> length (select df ''_date'') \<le> 1"
    proof -
      from a table date_metrics_table [of df dc d lib dates]
      have df': "df' = (if datetimelike dates
          then assign (assign df ''_date'' dates) ''_month_str'' (map month_str dates)
          else assign df ''_date'' dates)"
        by simp
      from a have s: "select (assign df ''_date'' dates) ''_date'' = [dates]"
        by (simp add: select_assign_single)
      then have "select df' ''_date'' = [dates]"
        unfolding df' by (simp add: select_assign_other)
      moreover have "column_names df' =
                     column_names df
                     @ filter (\<lambda>h. h \<notin> set (column_names df)) [''_date'', ''_month_str'']"
        if "datetimelike dates"
        using that unfolding df' by (simp add: column_names_assign_cases)
      moreover have "column_names df' =
                     column_names df @ filter (\<lambda>h. h \<notin> set (column_names df)) [''_date'']"
        if "\<not> datetimelike dates"
        using that unfolding df' by (simp add: column_names_assign_date)
      ultimately show ?thesis by blast
    qed
    from 1 2 3 4 run show ?thesis by simp
  qed
next
  show "analyze_all lib cfg data self = Inr (data', self'') \<longrightarrow>
        inventory data' = inventory data \<and> advertising data' = advertising data
        \<and> reviews data' = reviews data"
    using analyze_all_tables by blast
qed

theorem sales_helper_columns_witness:
  "first_containing ''date'' (column_names two_months) = Some ''date''
   \<and> length (select two_months ''_date'') \<le> 1
   \<and> column_names two_months = [''date'', ''revenue'']
   \<and> datetimelike
        [Stamp (Timestamp 2023 1 1672876800000000000 None),
         Stamp (Timestamp 2023 1 1674172800000000000 None),
         Stamp (Timestamp 2023 2 1675209600000000000 None),
         Stamp (Timestamp 2023 2 1676419200000000000 None)]
   \<and> (\<exists>df' self'. analyze_sales demo_lib two_months new_analyzer = Inr (df', self')
         \<and> column_names df' = [''date'', ''revenue'', ''_date'', ''_month_str'']
         \<and> select df' ''_date'' =
             [[Stamp (Timestamp 2023 1 1672876800000000000 None),
               Stamp (Timestamp 2023 1 1674172800000000000 None),
               Stamp (Timestamp 2023 2 1675209600000000000 None),
               Stamp (Timestamp 2023 2 1676419200000000000 None)]])
   \<and> (\<exists>data' self'. analyze_all demo_lib Config
           \<lparr>sales = Some two_months, inventory = Some stock_table, advertising = Some campaigns,
            reviews = Some four_ratings\<rparr> new_analyzer = Inr (data', self')
         \<and> inventory data' = Some stock_table \<and> advertising data' = Some campaigns
         \<and> reviews data' = Some four_ratings)"
proof -
  let ?d = "[Text ''2023-01-05'', Text ''2023-01-20'', Text ''2023-02-01'', Text ''2023-02-15'']"
  let ?dates = "[Stamp (Timestamp 2023 1 1672876800000000000 None),
          Stamp (Timestamp 2023 1 1674172800000000000 None),
          Stamp (Timestamp 2023 2 1675209600000000000 None),
          Stamp (Timestamp 2023 2 1676419200000000000 None)]"
  have h1: "first_containing ''date'' (column_names two_months) = Some ''date''"
    and h2: "select two_months ''date'' = [?d]"
    and h3: "length (select two_months ''_date'') \<le> 1"
    and h4: "column_names two_months = [''date'', ''revenue'']"
    and h6: "find_revenue_col (column_names two_months) = Some ''revenue''"
    and h7: "select two_months ''revenue'' = [map Num [Fin 100, Fin 50, Fin 200, Fin 60]]"
    and hq: "find_quantity_col (column_names two_months) = None"
    by (simp_all add: two_months_def string_eval frame_eval)
  have conv: "to_datetime demo_lib ?d = Inr ?dates"
    by (simp add: demo_lib_def)
  have dt: "datetimelike ?dates"
    by (simp add: datetimelike_def zones_def)
  have "\<exists>m. basic_metrics demo_lib two_months (find_quantity_col (column_names two_months))
              (find_revenue_col (column_names two_months)) = Inr m"
    using hq by (simp add: basic_metrics_def h6 h7 df_agg_def series_sum_def series_mean_def)
  then have "\<exists>df' self'. analyze_sales demo_lib two_months new_analyzer = Inr (df', self')"
    using analyze_sales_returns by blast
  then obtain df' self' where run: "analyze_sales demo_lib two_months new_analyzer = Inr (df', self')"
    by blast
  let ?data = "\<lparr>sales = Some two_months, inventory = Some stock_table, advertising = Some campaigns,
            reviews = Some four_ratings\<rparr>"
  have "\<exists>a. analyze_inventory demo_lib Config stock_table self' = Inr a"
    by (simp add: analyze_inventory_def Let_def split_beta)
  then obtain s1 where i: "analyze_inventory demo_lib Config stock_table self' = Inr s1"
    by blast
  have "\<exists>a. analyze_advertising demo_lib Config campaigns s1 = Inr a"
    by (simp add: analyze_advertising_def put_total_def campaigns_def Let_def split_beta
        string_eval frame_eval)
  then obtain s2 where a: "analyze_advertising demo_lib Config campaigns s1 = Inr s2"
    by blast
  have "\<exists>a. analyze_reviews demo_lib Config four_ratings s2 = Inr a"
    by (simp add: analyze_reviews_def Let_def split_beta)
  then obtain s' where r: "analyze_reviews demo_lib Config four_ratings s2 = Inr s'"
    by blast
  define data' where "data' = ?data\<lparr>sales := Some df'\<rparr>"
  have all: "analyze_all demo_lib Config ?data new_analyzer = Inr (data', s')"
    by (simp add: analyze_all_def sales_step_def domain_step_def run i a r data'_def)
  note sales_helper_columns [where lib = demo_lib and df = two_months and self = new_analyzer
      and dc = "''date''" and d = ?d and dates = ?dates
      and cfg = Config and data = ?data and data' = data' and self'' = s',
      unfolded run sum.case prod.case]
  with all h1 h2 h3 h4 conv dt
  have "column_names df' = [''date'', ''revenue'', ''_date'', ''_month_str'']
        \<and> select df' ''_date'' = [?dates]
        \<and> inventory data' = Some stock_table \<and> advertising data' = Some campaigns
        \<and> reviews data' = Some four_ratings"
    by simp
  with run all h1 h3 h4 dt show ?thesis by blast
qed

text \<open>
  Claim C10 as stated fails: a table that already has the columns \<open>_date\<close> and
  \<open>_month_str\<close> has a date column (\<open>_date\<close> itself), and after the analysis it has the same
  two columns, overwritten, not a larger column count.
\<close>

theorem sales_helper_columns_counterexample:
  "clean_sales_data demo_lib helper_named
     = \<lparr>nrows = 1,
        cols = [(''_date'', [Stamp (Timestamp 2023 1 1672876800000000000 None)]),
                (''_month_str'', [Text ''old''])]\<rparr>
   \<and> analyze_sales demo_lib (clean_sales_data demo_lib helper_named) new_analyzer
     = Inr (\<lparr>nrows = 1,
             cols = [(''_date'', [Stamp (Timestamp 2023 1 1672876800000000000 None)]),
                     (''_month_str'', [Text ''2023-01''])]\<rparr>,
            \<lparr>results = [''sales'' \<mapsto> [''total_transactions'' \<mapsto> VInt 1, ''total_quantity'' \<mapsto> VInt 0,
                                       ''total_revenue'' \<mapsto> VInt 0, ''avg_order_value'' \<mapsto> VInt 0]],
             alerts = []\<rparr>)"
proof -
  have clean: "clean_sales_data demo_lib helper_named
     = \<lparr>nrows = 1,
        cols = [(''_date'', [Stamp (Timestamp 2023 1 1672876800000000000 None)]),
                (''_month_str'', [Text ''old''])]\<rparr>"
    by (simp add: helper_named_def demo_lib_def clean_sales_data_def convert_dates_def
        coerce_sales_column_def sales_numeric_patterns_def string_eval frame_eval)
  show ?thesis
    unfolding clean
    by (simp add: new_analyzer_def demo_lib_def sales_eval string_eval frame_eval group_eval)
qed
section \<open>Properties of the advertising analysis\<close>

lemma binary64_not_nan: "binary64 x \<noteq> NaN"
  by (simp add: binary64_def Let_def)

lemma binary64_zero: "binary64 0 = Fin 0"
  by (simp add: float_eval)

lemma fround2_not_nan: "fround2 (Fin x) \<noteq> NaN"
proof -
  have "fmul (Fin x) (Fin 100) = binary64 (x * 100)" by simp
  then show ?thesis
    using binary64_not_nan [of "x * 100"]
    by (cases "binary64 (x * 100)") (simp_all add: fround2_def inf_of_sign_def binary64_not_nan)
qed

lemma roas_value_not_nan: "roas_value a b \<noteq> NaN"
proof -
  have "\<exists>x. fillna0 (replace_inf y) = Fin x" for y by (cases y) auto
  then show ?thesis
    unfolding roas_value_def using fround2_not_nan by metis
qed

lemma roas_value_zero_spend: "roas_value a (Fin 0) = Fin 0"
  by (cases a) (simp_all add: roas_value_def inf_of_sign_def fround2_def binary64_zero
      round_half_even_def)

text \<open>
  Claim C7 fails on the code. The return of a campaign is never NaN and is 0 where the
  spend is 0, but it is not always finite: \<open>round(2)\<close> comes last, after the infinities
  have been replaced, and it multiplies by 100. For a campaign with sales of \<open>2 ^ 1020\<close>
  and a spend of 1 that product is beyond the largest float, and the stored return is
  \<open>Infinity\<close>.
\<close>

theorem campaign_roas_overflow:
  "roas_value (Fin large_amount) (Fin 1) = PInf
   \<and> analyze_advertising demo_lib Config large_sales new_analyzer
     = Inr \<lparr>results =
              [''advertising'' \<mapsto>
                 [''total_spend'' \<mapsto> VNum (Fin 1), ''total_clicks'' \<mapsto> VNum (Fin 1),
                  ''avg_cpc'' \<mapsto> VNum (Fin 1),
                  ''campaign_performance'' \<mapsto>
                    VFrame \<lparr>nrows = 1,
                            cols = [(''campaign_name'', [Text ''A'']), (''spend'', [Num (Fin 1)]),
                                    (''clicks'', [Num (Fin 1)]), (''sales'', [Num (Fin large_amount)]),
                                    (''roas'', [Num PInf])]\<rparr>]],
            alerts = []\<rparr>"
proof -
  have sums: "binary64 1 = Fin 1" "binary64 large_amount = Fin large_amount"
    by (simp_all add: large_amount_def float_eval)
  have quotient: "fdiv (Fin large_amount) (Fin 1) = Fin large_amount"
    by (simp add: sums)
  have times: "fmul (Fin large_amount) (Fin 100) = PInf"
    by (simp add: large_amount_def float_eval)
  have divided: "fdiv PInf (Fin 100) = PInf"
    by (simp add: inf_of_sign_def)
  have roas: "roas_value (Fin large_amount) (Fin 1) = PInf"
    by (simp add: roas_value_def fround2_def quotient times divided del: fdiv.simps fmul.simps)
  have thr: "binary64 (5 / 2) = Fin (5 / 2)"
    by (simp add: float_eval)
  have "analyze_advertising demo_lib Config large_sales new_analyzer
     = Inr \<lparr>results =
              [''advertising'' \<mapsto>
                 [''total_spend'' \<mapsto> VNum (Fin 1), ''total_clicks'' \<mapsto> VNum (Fin 1),
                  ''avg_cpc'' \<mapsto> VNum (Fin 1),
                  ''campaign_performance'' \<mapsto>
                    VFrame \<lparr>nrows = 1,
                            cols = [(''campaign_name'', [Text ''A'']), (''spend'', [Num (Fin 1)]),
                                    (''clicks'', [Num (Fin 1)]), (''sales'', [Num (Fin large_amount)]),
                                    (''roas'', [Num PInf])]\<rparr>]],
            alerts = []\<rparr>"
    by (simp add: large_sales_def new_analyzer_def demo_lib_def Config_def
        analyze_advertising_def put_total_def derived_rates_def campaign_analysis_def
        with_roas_def sort_values_desc_def sortable_def argsort_desc_def before_desc_def
        get_num_def fgt_def to_numeric_def group_eval string_eval frame_eval
        roas sums thr)
  with roas show ?thesis by simp
qed
section \<open>Properties of the run\<close>

lemma analyze_inventory_returns: "\<exists>a. analyze_inventory lib cfg df self = Inr a"
  by (simp add: analyze_inventory_def Let_def split_beta)

lemma analyze_reviews_returns: "\<exists>a. analyze_reviews lib cfg df self = Inr a"
  by (simp add: analyze_reviews_def Let_def split_beta)

lemma sales_step_without:
  "sales_step lib (data\<lparr>advertising := None, reviews := None\<rparr>) self =
     then_do (sales_step lib data self)
       (\<lambda>(d, s). Inr (d\<lparr>advertising := None, reviews := None\<rparr>, s))"
  by (cases "sales data"; cases "analyze_sales lib (the (sales data)) self")
     (auto simp: sales_step_def)

text \<open>
  Claim C1 (amended). An exception that leaves the analysis of one domain is raised
  again by \<open>analyze_all\<close>: the run stops there and returns nothing, and the domains after
  it are not analysed. This holds for the sales analysis, the first one, and for the
  advertising analysis after the sales and inventory analyses have returned. The
  inventory and the reviews analysis never raise: what fails inside them is caught
  inside them.
\<close>

theorem analyze_all_raises:
  "(sales data = Some sales_df \<and> analyze_sales lib sales_df self = Inl e
      \<longrightarrow> analyze_all lib cfg data self = Inl e)
   \<and> (advertising data = Some advertising_df
        \<and> analyze_all lib cfg (data\<lparr>advertising := None, reviews := None\<rparr>) self = Inr (data1, self1)
        \<and> analyze_advertising lib cfg advertising_df self1 = Inl e
      \<longrightarrow> analyze_all lib cfg data self = Inl e)
   \<and> (\<exists>a. analyze_inventory lib cfg df self = Inr a)
   \<and> (\<exists>a. analyze_reviews lib cfg df self = Inr a)"
proof (intro conjI impI)
  assume "sales data = Some sales_df \<and> analyze_sales lib sales_df self = Inl e"
  then show "analyze_all lib cfg data self = Inl e"
    by (simp add: analyze_all_def sales_step_def)
next
  assume a: "advertising data = Some advertising_df
        \<and> analyze_all lib cfg (data\<lparr>advertising := None, reviews := None\<rparr>) self = Inr (data1, self1)
        \<and> analyze_advertising lib cfg advertising_df self1 = Inl e"
  then have adv: "advertising data = Some advertising_df"
    and pre: "analyze_all lib cfg (data\<lparr>advertising := None, reviews := None\<rparr>) self = Inr (data1, self1)"
    and fail: "analyze_advertising lib cfg advertising_df self1 = Inl e"
    by simp_all
  show "analyze_all lib cfg data self = Inl e"
  proof (cases "sales_step lib data self")
    case (Inl e')
    with pre show ?thesis by (simp add: analyze_all_def sales_step_without)
  next
    case (Inr p)
    obtain d0 s0 where p: "p = (d0, s0)" by (cases p)
    have d0: "inventory d0 = inventory data" "advertising d0 = advertising data"
      using Inr p
      by (cases "sales data"; cases "analyze_sales lib (the (sales data)) self";
          auto simp: sales_step_def)+
    have "\<exists>s2. domain_step (analyze_inventory lib cfg) (inventory data) s0 = Inr s2"
      by (cases "inventory data") (simp_all add: domain_step_def analyze_inventory_returns)
    then obtain s2 where s2: "domain_step (analyze_inventory lib cfg) (inventory data) s0 = Inr s2"
      by blast
    from pre Inr p d0 s2 have "self1 = s2"
      by (simp add: analyze_all_def sales_step_without domain_step_def)
    with Inr p d0 s2 adv fail show ?thesis
      by (simp add: analyze_all_def domain_step_def)
  qed
next
  show "\<exists>a. analyze_inventory lib cfg df self = Inr a" by (rule analyze_inventory_returns)
  show "\<exists>a. analyze_reviews lib cfg df self = Inr a" by (rule analyze_reviews_returns)
qed


theorem analyze_all_raises_witness:
  "analyze_sales demo_lib text_quantity new_analyzer = Inl TypeError
   \<and> analyze_all demo_lib Config
        \<lparr>sales = Some text_quantity, inventory = Some stock_table, advertising = None,
         reviews = Some four_ratings\<rparr> new_analyzer = Inl TypeError
   \<and> (\<exists>data1 self1.
         analyze_all demo_lib Config
           (\<lparr>sales = None, inventory = Some stock_table, advertising = Some dup_spend,
             reviews = Some four_ratings\<rparr>\<lparr>advertising := None, reviews := None\<rparr>) new_analyzer
           = Inr (data1, self1)
         \<and> analyze_advertising demo_lib Config dup_spend self1 = Inl TypeError)
   \<and> analyze_all demo_lib Config
        \<lparr>sales = None, inventory = Some stock_table, advertising = Some dup_spend,
         reviews = Some four_ratings\<rparr> new_analyzer = Inl TypeError"
proof -
  let ?d1 = "\<lparr>sales = Some text_quantity, inventory = Some stock_table, advertising = None,
         reviews = Some four_ratings\<rparr>"
  let ?d2 = "\<lparr>sales = None, inventory = Some stock_table, advertising = Some dup_spend,
             reviews = Some four_ratings\<rparr>"
  have s: "analyze_sales demo_lib text_quantity new_analyzer = Inl TypeError"
    by (simp add: text_quantity_def demo_lib_def sales_eval string_eval frame_eval group_eval)
  have adv: "analyze_advertising demo_lib Config dup_spend self1 = Inl TypeError" for self1
    by (simp add: analyze_advertising_def put_total_def dup_spend_def string_eval frame_eval)
  have "\<exists>a. analyze_inventory demo_lib Config stock_table new_analyzer = Inr a"
    by (simp add: analyze_inventory_def Let_def split_beta)
  then obtain self1 where i: "analyze_inventory demo_lib Config stock_table new_analyzer = Inr self1"
    by blast
  have pre: "analyze_all demo_lib Config (?d2\<lparr>advertising := None, reviews := None\<rparr>) new_analyzer
           = Inr (?d2\<lparr>advertising := None, reviews := None\<rparr>, self1)"
    by (simp add: analyze_all_def sales_step_def domain_step_def i)
  from analyze_all_raises [where data = ?d1 and sales_df = text_quantity and lib = demo_lib
      and self = new_analyzer and e = TypeError and cfg = Config] s
  have 1: "analyze_all demo_lib Config ?d1 new_analyzer = Inl TypeError" by simp
  from analyze_all_raises [where data = ?d2 and lib = demo_lib and self = new_analyzer
      and e = TypeError and cfg = Config and advertising_df = dup_spend
      and ?data1.0 = "?d2\<lparr>advertising := None, reviews := None\<rparr>" and ?self1.0 = self1] pre adv
  have 2: "analyze_all demo_lib Config ?d2 new_analyzer = Inl TypeError" by simp
  from s 1 2 pre adv show ?thesis by blast
qed

text \<open>
  Claim C1 as stated fails. An advertising table with the label \<open>spend\<close> twice makes
  \<open>pd.to_numeric\<close> raise \<open>TypeError\<close> outside any \<open>try\<close> of the advertising analysis; the
  run raises and the reviews table, which was loaded and which alone yields a metrics
  record and an alert, is never analysed.
\<close>

theorem analyze_all_raises_counterexample:
  "analyze_all demo_lib Config
     \<lparr>sales = None, inventory = None, advertising = Some dup_spend, reviews = Some four_ratings\<rparr>
     new_analyzer = Inl TypeError
   \<and> analyze_all demo_lib Config
     \<lparr>sales = None, inventory = None, advertising = None, reviews = Some four_ratings\<rparr>
     new_analyzer
     = Inr (\<lparr>sales = None, inventory = None, advertising = None, reviews = Some four_ratings\<rparr>,
            \<lparr>results = [''reviews'' \<mapsto> [''total_reviews'' \<mapsto> VInt 4, ''avg_rating'' \<mapsto> VNum (Fin 3),
                                         ''low_rated_count'' \<mapsto> VInt 2]],
             alerts = [low_ratings_alert demo_lib Config 2]\<rparr>)"
proof -
  have mean: "nanmean demo_lib [Fin 1, Fin 1, Fin 5, Fin 5] = Fin 3"
    by (simp add: nanmean_def demo_lib_def float_eval)
  show ?thesis
    by (simp add: analyze_all_def sales_step_def domain_step_def analyze_advertising_def
        put_total_def analyze_reviews_def dup_spend_def four_ratings_def new_analyzer_def
        to_numeric_def Config_def numeral_2_eq_2 string_eval frame_eval mean)
qed

end
